theory Spec2Isabelle
  imports Main "HOL-Library.Sublist" "HOL-Library.Finite_Map"
begin

section \<open>Azure entities (azure/types.go)\<close>

text \<open>
  Go strings are byte sequences; they are modelled as \<open>string\<close> (a list of 8-bit
  characters). The JSON tags of the structs play no role in the wizard and are left out.
  Field names carry a prefix because the Go structs share the names \<open>ID\<close> and \<open>Name\<close>.
\<close>

record Subscription =
  sub_ID :: string
  sub_Name :: string

record ResourceGroup =
  rg_ID :: string
  rg_Name :: string

record PolicyAssignment =
  pa_ID :: string
  pa_Name :: string
  pa_DisplayName :: string
  pa_Scope :: string
  pa_PolicyDefinitionID :: string

record PolicyDefinitionRef =
  ref_PolicyDefinitionID :: string
  ref_ReferenceID :: string
  ref_DisplayName :: string

text \<open>The zero values \<open>azure.Subscription{}\<close> and \<open>azure.PolicyAssignment{}\<close>.\<close>

definition zero_Subscription :: Subscription where
  "zero_Subscription = \<lparr>sub_ID = [], sub_Name = []\<rparr>"

definition zero_PolicyAssignment :: PolicyAssignment where
  "zero_PolicyAssignment =
     \<lparr>pa_ID = [], pa_Name = [], pa_DisplayName = [], pa_Scope = [], pa_PolicyDefinitionID = []\<rparr>"

text \<open>
  \<open>strings.Split(s, sep)\<close> for a separator of one byte (the only use in the source is
  \<open>sep = "/"\<close>): the pieces between the separators, in order; the result always has
  at least one element, and \<open>Split("", "/")\<close> is \<open>[""]\<close>.
\<close>

fun strings_Split :: "char \<Rightarrow> string \<Rightarrow> string list" where
  "strings_Split sep [] = [[]]"
| "strings_Split sep (c # cs) =
     (if c = sep then [] # strings_Split sep cs
      else (case strings_Split sep cs of
              p # ps \<Rightarrow> (c # p) # ps
            | [] \<Rightarrow> [[c]]))"

text \<open>\<open>strings.HasPrefix(s, p)\<close> is \<open>prefix p s\<close>.\<close>

definition Scope :: "Subscription \<Rightarrow> string" where
  "Scope s =
     (if prefix ''/'' (sub_ID s) then sub_ID s
      else ''/subscriptions/'' @ sub_ID s)"

definition ShortID :: "Subscription \<Rightarrow> string" where
  "ShortID s =
     (if \<not> prefix ''/subscriptions/'' (sub_ID s) then sub_ID s
      else last (strings_Split (CHR ''/'') (sub_ID s)))"

definition DisplayLabel :: "PolicyAssignment \<Rightarrow> string" where
  "DisplayLabel p = (if pa_DisplayName p \<noteq> [] then pa_DisplayName p else pa_Name p)"

text \<open>
  The spec's "last path segment" of an identifier, written independently of the code:
  the text after the final \<open>/\<close> (the whole text when there is none).
\<close>

definition last_path_segment :: "string \<Rightarrow> string" where
  "last_path_segment s = rev (takeWhile (\<lambda>c. c \<noteq> CHR ''/'') (rev s))"

section \<open>The wizard state (tui/model.go)\<close>

datatype Step =
    StepLoadingSubscriptions
  | StepSelectSubscription
  | StepLoadingAssignments
  | StepSelectAssignment
  | StepLoadingAssignmentDefinitions
  | StepAssignmentScope
  | StepSelectDefinitions
  | StepLoadingResourceGroups
  | StepSelectResourceGroup
  | StepTicket
  | StepUsers
  | StepExpirationChoice
  | StepExpirationDate
  | StepConfirm
  | StepCreating
  | StepDone
  | StepError

text \<open>A Go \<open>error\<close> is represented by its message; \<open>nil\<close> is \<open>None\<close>.\<close>

type_synonym error = string

text \<open>
  The struct \<open>Model\<close>. The handles \<open>ctx\<close> and \<open>azureClient\<close> are only passed on to the
  commands and are left out. Go's \<open>int\<close> is modelled by \<open>int\<close>: the only arithmetic on
  these fields is a guarded increment or decrement of \<open>Cursor\<close>, which cannot overflow.
  \<open>map[string]bool\<close> is a finite map. The three text inputs are values of the widget
  type \<open>textinput.Model\<close> of an external library, kept abstract as \<open>'ti\<close>.
\<close>

record 'ti Model =
  Step :: Step
  Status :: string
  Err :: "error option"
  Subscriptions :: "Subscription list"
  Assignments :: "PolicyAssignment list"
  AssignmentDefinitions :: "PolicyDefinitionRef list"
  ResourceGroups :: "ResourceGroup list"
  SelectedDefinitionIDs :: "(string, bool) fmap"
  Cursor :: int
  SelectedSubscription :: int
  SelectedAssignment :: int
  SelectedResourceGroup :: int
  PartialExemption :: bool
  TicketInput :: 'ti
  UserInput :: 'ti
  ExpirationInput :: 'ti
  Ticket :: string
  RequestUser :: string
  ExpirationDate :: string
  CreateOutput :: string

text \<open>
  A key press \<open>tea.KeyMsg\<close>: the source reads its \<open>Type\<close> and the text of
  \<open>msg.String()\<close>, nothing else. Both are fields here; no relation between them is
  assumed (in the library, Alt+Enter has type \<open>KeyEnter\<close> and the text \<open>alt+enter\<close>).
\<close>

datatype KeyType = KeyEnter | KeyRunes | KeySpace | KeyUp | KeyDown | KeyCtrlC | KeyOther

record KeyMsg =
  key_Type :: KeyType
  key_String :: string

text \<open>
  The messages of tui/commands.go (each carries a payload and an error) and every other
  \<open>tea.Msg\<close> of the runtime.
\<close>

datatype Msg =
    KeyMsg KeyMsg
  | subscriptionsLoadedMsg "Subscription list" "error option"
  | assignmentsLoadedMsg "PolicyAssignment list" "error option"
  | assignmentDefinitionsLoadedMsg "PolicyDefinitionRef list" "error option"
  | resourceGroupsLoadedMsg "ResourceGroup list" "error option"
  | exemptionCreatedMsg string "error option"
  | OtherMsg

text \<open>
  The commands \<open>Update\<close> can return (a \<open>nil\<close> command is \<open>None\<close>): \<open>tea.Quit\<close>, the
  opaque command of a text input, and the five asynchronous operations of
  tui/commands.go with the arguments they are built from.
\<close>

datatype Cmd =
    Quit
  | TextInputCmd
  | fetchSubscriptionsCmd
  | fetchAssignmentsCmd Subscription
  | fetchAssignmentDefinitionsCmd PolicyAssignment
  | fetchResourceGroupsCmd Subscription
  | createExemptionCmd string PolicyAssignment "(string, bool) fmap" string string string

text \<open>A run-time panic of Go: an index outside a slice.\<close>

datatype panic = IndexOutOfRange

text \<open>
  What the wizard uses from outside the repository, taken as parameters: the text input
  widget (\<open>textinput.New\<close> with placeholder, prompt and character limit, \<open>Update\<close>
  returning the new widget and whether its command is non-nil, \<open>Value\<close>, \<open>SetValue\<close>,
  \<open>Focus\<close>, \<open>Blur\<close>) and \<open>strings.TrimSpace\<close>.
\<close>

record 'ti Env =
  ti_New :: "string \<Rightarrow> string \<Rightarrow> nat \<Rightarrow> 'ti"
  ti_Update :: "'ti \<Rightarrow> KeyMsg \<Rightarrow> 'ti \<times> bool"
  ti_Value :: "'ti \<Rightarrow> string"
  ti_SetValue :: "'ti \<Rightarrow> string \<Rightarrow> 'ti"
  ti_Focus :: "'ti \<Rightarrow> 'ti"
  ti_Blur :: "'ti \<Rightarrow> 'ti"
  strings_TrimSpace :: "string \<Rightarrow> string"

abbreviation len :: "'a list \<Rightarrow> int" where
  "len xs \<equiv> int (length xs)"

text \<open>\<open>xs[i]\<close>: Go panics when the index is negative or not below the length.\<close>

definition go_index :: "'a list \<Rightarrow> int \<Rightarrow> panic + 'a" where
  "go_index xs i = (if 0 \<le> i \<and> i < len xs then Inr (xs ! nat i) else Inl IndexOutOfRange)"

text \<open>\<open>mp[k]\<close> on a \<open>map[string]bool\<close> (false for a missing key) and \<open>len(mp)\<close>.\<close>

definition map_get :: "(string, bool) fmap \<Rightarrow> string \<Rightarrow> bool" where
  "map_get mp k = (case fmlookup mp k of Some b \<Rightarrow> b | None \<Rightarrow> False)"

definition map_len :: "(string, bool) fmap \<Rightarrow> int" where
  "map_len mp = int (fcard (fmdom mp))"

definition NewModel :: "'ti Env \<Rightarrow> 'ti Model" where
  "NewModel E =
     \<lparr>Step = StepLoadingSubscriptions,
      Status = [],
      Err = None,
      Subscriptions = [],
      Assignments = [],
      AssignmentDefinitions = [],
      ResourceGroups = [],
      SelectedDefinitionIDs = fmempty,
      Cursor = 0,
      SelectedSubscription = - 1,
      SelectedAssignment = - 1,
      SelectedResourceGroup = - 1,
      PartialExemption = False,
      TicketInput = ti_Blur E (ti_New E ''e.g. INC123456'' ''Ticket> '' 128),
      UserInput = ti_Blur E (ti_New E ''Comma-separated requester names'' ''Users> '' 256),
      ExpirationInput = ti_Blur E (ti_New E ''YYYY-MM-DD'' ''Expires on> '' 10),
      Ticket = [],
      RequestUser = [],
      ExpirationDate = [],
      CreateOutput = []\<rparr>"

definition Init :: "'ti Model \<Rightarrow> Cmd option" where
  "Init m = Some fetchSubscriptionsCmd"

text \<open>
  \<open>CurrentSubscription\<close> and \<open>CurrentAssignment\<close>, with every slice access checked: a
  panic would be the value \<open>Inl\<close>.
\<close>

definition CurrentSubscription :: "'ti Model \<Rightarrow> panic + Subscription" where
  "CurrentSubscription m =
     (if SelectedSubscription m \<ge> 0 \<and> SelectedSubscription m < len (Subscriptions m)
      then go_index (Subscriptions m) (SelectedSubscription m)
      else if len (Subscriptions m) = 0 then Inr zero_Subscription
      else go_index (Subscriptions m) 0)"

definition CurrentAssignment :: "'ti Model \<Rightarrow> panic + PolicyAssignment" where
  "CurrentAssignment m =
     (if SelectedAssignment m \<ge> 0 \<and> SelectedAssignment m < len (Assignments m)
      then go_index (Assignments m) (SelectedAssignment m)
      else if len (Assignments m) = 0 then Inr zero_PolicyAssignment
      else go_index (Assignments m) 0)"

text \<open>
  The two accessors never panic (lemmas \<open>CurrentSubscription_returns\<close> and
  \<open>CurrentAssignment_returns\<close> below), so the transition functions use the value they
  return.
\<close>

definition CurrentSubscription_val :: "'ti Model \<Rightarrow> Subscription" where
  "CurrentSubscription_val m =
     (case CurrentSubscription m of Inr s \<Rightarrow> s | Inl _ \<Rightarrow> zero_Subscription)"

definition CurrentAssignment_val :: "'ti Model \<Rightarrow> PolicyAssignment" where
  "CurrentAssignment_val m =
     (case CurrentAssignment m of Inr a \<Rightarrow> a | Inl _ \<Rightarrow> zero_PolicyAssignment)"

definition Fail :: "'ti Model \<Rightarrow> error \<Rightarrow> 'ti Model \<times> Cmd option" where
  "Fail m err = (m\<lparr>Err := Some err, Step := StepError, Status := []\<rparr>, None)"

section \<open>Calendar dates: \<open>time.Parse("2006-01-02", value)\<close>\<close>

text \<open>
  Modelled from the spec: \<open>time.Parse\<close> belongs to the Go standard library and is not
  under src/. The spec has the expiration input "parse as a calendar date (format
  YYYY-MM-DD)". The model follows the library's parser for the layout \<open>2006-01-02\<close>:
  a year of four digits, \<open>-\<close>, a month of two digits in 1..12, \<open>-\<close>, a day of two
  digits, no text after it, and the day within the month's length in that year.
  The result is the parsed date, or \<open>None\<close> where the library returns an error.
\<close>

definition isDigit :: "string \<Rightarrow> nat \<Rightarrow> bool" where
  "isDigit s i = (i < length s \<and> 48 \<le> (of_char (s ! i) :: nat) \<and> (of_char (s ! i) :: nat) \<le> 57)"

definition digit_value :: "char \<Rightarrow> nat" where
  "digit_value c = of_char c - 48"

text \<open>\<open>getnum(s, fixed)\<close>: one or two leading digits; with \<open>fixed\<close>, exactly two.\<close>

definition getnum :: "string \<Rightarrow> bool \<Rightarrow> (nat \<times> string) option" where
  "getnum s fixed =
     (if \<not> isDigit s 0 then None
      else if \<not> isDigit s 1 then
        (if fixed then None else Some (digit_value (s ! 0), drop 1 s))
      else Some (digit_value (s ! 0) * 10 + digit_value (s ! 1), drop 2 s))"

text \<open>\<open>atoi\<close> on the four bytes of the year, the first of which is known to be a digit.\<close>

definition atoi4 :: "string \<Rightarrow> nat option" where
  "atoi4 p =
     (if isDigit p 0 \<and> isDigit p 1 \<and> isDigit p 2 \<and> isDigit p 3
      then Some (digit_value (p ! 0) * 1000 + digit_value (p ! 1) * 100
                 + digit_value (p ! 2) * 10 + digit_value (p ! 3))
      else None)"

text \<open>\<open>skip(value, prefix)\<close> for a literal prefix without spaces.\<close>

definition skip :: "string \<Rightarrow> string \<Rightarrow> string option" where
  "skip v p = (if prefix p v then Some (drop (length p) v) else None)"

definition isLeap :: "nat \<Rightarrow> bool" where
  "isLeap year = (year mod 4 = 0 \<and> (year mod 100 \<noteq> 0 \<or> year mod 400 = 0))"

definition daysIn :: "nat \<Rightarrow> nat \<Rightarrow> nat" where
  "daysIn month year =
     (if month = 2 \<and> isLeap year then 29
      else [31, 28, 31, 30, 31, 30, 31, 31, 30, 31, 30, 31] ! (month - 1))"

definition time_Parse :: "string \<Rightarrow> (nat \<times> nat \<times> nat) option" where
  "time_Parse v0 =
     (if length v0 < 4 \<or> \<not> isDigit v0 0 then None
      else case atoi4 (take 4 v0) of
        None \<Rightarrow> None
      | Some year \<Rightarrow>
      (case skip (drop 4 v0) ''-'' of
        None \<Rightarrow> None
      | Some v1 \<Rightarrow>
      (case getnum v1 True of
        None \<Rightarrow> None
      | Some (month, v2) \<Rightarrow>
      if month \<le> 0 \<or> 12 < month then None
      else (case skip v2 ''-'' of
        None \<Rightarrow> None
      | Some v3 \<Rightarrow>
      (case getnum v3 True of
        None \<Rightarrow> None
      | Some (day, v4) \<Rightarrow>
      if v4 \<noteq> [] then None
      else if day < 1 \<or> day > daysIn month year then None
      else Some (year, month, day))))))"

section \<open>Key handling (tui/update.go, \<open>handleKey\<close>)\<close>

text \<open>The cases \<open>"up", "k"\<close> and \<open>"down", "j"\<close> of the switches on \<open>msg.String()\<close>.\<close>

definition is_up :: "KeyMsg \<Rightarrow> bool" where
  "is_up k = (key_String k = ''up'' \<or> key_String k = ''k'')"

definition is_down :: "KeyMsg \<Rightarrow> bool" where
  "is_down k = (key_String k = ''down'' \<or> key_String k = ''j'')"

text \<open>
  \<open>if m.Cursor > 0 { m.Cursor-- }\<close> and \<open>if m.Cursor < n-1 { m.Cursor++ }\<close>, the code of
  every selection step, with \<open>n\<close> the length of the step's list (or 2).
\<close>

definition cursor_up :: "'ti Model \<Rightarrow> 'ti Model" where
  "cursor_up m = (if Cursor m > 0 then m\<lparr>Cursor := Cursor m - 1\<rparr> else m)"

definition cursor_down :: "int \<Rightarrow> 'ti Model \<Rightarrow> 'ti Model" where
  "cursor_down n m = (if Cursor m < n - 1 then m\<lparr>Cursor := Cursor m + 1\<rparr> else m)"

text \<open>The arrows of the status lines, in UTF-8.\<close>

definition arrows :: string where
  "arrows = [CHR 0xE2, CHR 0x86, CHR 0x91] @ ''/'' @ [CHR 0xE2, CHR 0x86, CHR 0x93]"

type_synonym 'ti result = "panic + ('ti Model \<times> Cmd option)"

definition key_SelectSubscription :: "'ti Model \<Rightarrow> KeyMsg \<Rightarrow> 'ti result" where
  "key_SelectSubscription m k =
     (if is_up k then Inr (cursor_up m, None)
      else if is_down k then Inr (cursor_down (len (Subscriptions m)) m, None)
      else if key_String k = ''enter'' then
        (if len (Subscriptions m) = 0 then Inr (m, None)
         else
           let m1 = m\<lparr>SelectedSubscription := Cursor m, Step := StepLoadingAssignments\<rparr>;
               sub = CurrentSubscription_val m1
           in Inr (m1\<lparr>Status := ''Fetching policy assignments for '' @ sub_Name sub @ ''...''\<rparr>,
                   Some (fetchAssignmentsCmd sub)))
      else Inr (m, None))"

definition key_SelectAssignment :: "'ti Model \<Rightarrow> KeyMsg \<Rightarrow> 'ti result" where
  "key_SelectAssignment m k =
     (if is_up k then Inr (cursor_up m, None)
      else if is_down k then Inr (cursor_down (len (Assignments m)) m, None)
      else if key_String k = ''enter'' then
        (if len (Assignments m) = 0 then Inr (m, None)
         else
           let m1 = m\<lparr>SelectedAssignment := Cursor m, Step := StepLoadingAssignmentDefinitions\<rparr>;
               assign = CurrentAssignment_val m1
           in Inr (m1\<lparr>Status := ''Fetching assignment details for '' @ DisplayLabel assign @ ''...''\<rparr>,
                   Some (fetchAssignmentDefinitionsCmd assign)))
      else Inr (m, None))"

definition key_AssignmentScope :: "'ti Model \<Rightarrow> KeyMsg \<Rightarrow> 'ti result" where
  "key_AssignmentScope m k =
     (if is_up k then Inr (cursor_up m, None)
      else if is_down k then Inr (cursor_down 2 m, None)
      else if key_String k = ''enter'' then
        (if Cursor m = 0 then
           let m1 = m\<lparr>PartialExemption := False, Step := StepLoadingResourceGroups,
                       Status := ''Loading resource groups...''\<rparr>
           in Inr (m1, Some (fetchResourceGroupsCmd (CurrentSubscription_val m1)))
         else
           Inr (m\<lparr>PartialExemption := True, Step := StepSelectDefinitions, Cursor := 0,
                   Status := ''Select definitions to exempt (space to toggle, Enter to continue).''\<rparr>,
                None))
      else Inr (m, None))"

definition key_SelectDefinitions :: "'ti Model \<Rightarrow> KeyMsg \<Rightarrow> 'ti result" where
  "key_SelectDefinitions m k =
     (if is_up k then Inr (cursor_up m, None)
      else if is_down k then Inr (cursor_down (len (AssignmentDefinitions m)) m, None)
      else if key_String k = '' '' then
        (if len (AssignmentDefinitions m) = 0 then Inr (m, None)
         else case go_index (AssignmentDefinitions m) (Cursor m) of
           Inl p \<Rightarrow> Inl p
         | Inr ref \<Rightarrow>
             if map_get (SelectedDefinitionIDs m) (ref_ReferenceID ref)
             then Inr (m\<lparr>SelectedDefinitionIDs :=
                            fmdrop (ref_ReferenceID ref) (SelectedDefinitionIDs m)\<rparr>, None)
             else Inr (m\<lparr>SelectedDefinitionIDs :=
                            fmupd (ref_ReferenceID ref) True (SelectedDefinitionIDs m)\<rparr>, None))
      else if key_String k = ''enter'' then
        (if len (AssignmentDefinitions m) = 0 then Inr (m, None)
         else if map_len (SelectedDefinitionIDs m) = 0 then
           Inr (m\<lparr>Status := ''Select at least one definition or choose full assignment.''\<rparr>, None)
         else
           let m1 = m\<lparr>Step := StepLoadingResourceGroups, Status := ''Loading resource groups...''\<rparr>
           in Inr (m1, Some (fetchResourceGroupsCmd (CurrentSubscription_val m1))))
      else Inr (m, None))"

definition key_SelectResourceGroup :: "'ti Env \<Rightarrow> 'ti Model \<Rightarrow> KeyMsg \<Rightarrow> 'ti result" where
  "key_SelectResourceGroup E m k =
     (if is_up k then Inr (cursor_up m, None)
      else if is_down k then Inr (cursor_down (len (ResourceGroups m)) m, None)
      else if key_String k = ''enter'' then
        (if len (ResourceGroups m) = 0 then Inr (m, None)
         else
           Inr (m\<lparr>SelectedResourceGroup := Cursor m, Step := StepTicket,
                   TicketInput := ti_Focus E (ti_SetValue E (TicketInput m) []),
                   Status := ''Provide the tracking ticket number linked to this exemption:''\<rparr>,
                None))
      else Inr (m, None))"

text \<open>
  The three text steps first pass the key to the widget, whose command they return
  whatever happens next.
\<close>

definition text_cmd :: "bool \<Rightarrow> Cmd option" where
  "text_cmd nonnil = (if nonnil then Some TextInputCmd else None)"

definition key_Ticket :: "'ti Env \<Rightarrow> 'ti Model \<Rightarrow> KeyMsg \<Rightarrow> 'ti result" where
  "key_Ticket E m k =
     (let (ti, c) = ti_Update E (TicketInput m) k;
          m1 = m\<lparr>TicketInput := ti\<rparr>;
          textCmd = text_cmd c
      in if key_Type k = KeyEnter then
           (let v = strings_TrimSpace E (ti_Value E (TicketInput m1))
            in if v = [] then Inr (m1\<lparr>Status := ''A ticket number is required.''\<rparr>, textCmd)
               else
                 Inr (m1\<lparr>Ticket := v, Step := StepUsers,
                          TicketInput := ti_Blur E (TicketInput m1),
                          UserInput := ti_Focus E (ti_SetValue E (UserInput m1) []),
                          Status := ''Who is requesting this exemption? Provide one or more names.''\<rparr>,
                      textCmd))
         else Inr (m1, textCmd))"

definition key_Users :: "'ti Env \<Rightarrow> 'ti Model \<Rightarrow> KeyMsg \<Rightarrow> 'ti result" where
  "key_Users E m k =
     (let (ti, c) = ti_Update E (UserInput m) k;
          m1 = m\<lparr>UserInput := ti\<rparr>;
          textCmd = text_cmd c
      in if key_Type k = KeyEnter then
           (let v = strings_TrimSpace E (ti_Value E (UserInput m1))
            in if v = [] then
                 Inr (m1\<lparr>Status := ''At least one requester name is required.''\<rparr>, textCmd)
               else
                 Inr (m1\<lparr>RequestUser := v, Step := StepExpirationChoice,
                          UserInput := ti_Blur E (UserInput m1),
                          Cursor := 0,
                          Status := ''Set an expiration date for this exemption?''\<rparr>,
                      textCmd))
         else Inr (m1, textCmd))"

text \<open>
  \<open>now30\<close> stands for \<open>time.Now().AddDate(0, 0, 30).Format("2006-01-02")\<close>, the date
  thirty days after the clock's reading when the key is handled.
\<close>

definition key_ExpirationChoice :: "'ti Env \<Rightarrow> string \<Rightarrow> 'ti Model \<Rightarrow> KeyMsg \<Rightarrow> 'ti result" where
  "key_ExpirationChoice E now30 m k =
     (if is_up k then Inr (cursor_up m, None)
      else if is_down k then Inr (cursor_down 2 m, None)
      else if key_String k = ''enter'' then
        (if Cursor m = 0 then
           Inr (m\<lparr>ExpirationDate := [], Step := StepConfirm,
                   Status := ''Review the summary and press Enter to create the exemption.''\<rparr>,
                None)
         else
           Inr (m\<lparr>Step := StepExpirationDate,
                   ExpirationInput := ti_Focus E (ti_SetValue E (ExpirationInput m) now30),
                   Status := ''Enter expiration date (YYYY-MM-DD):''\<rparr>,
                None))
      else Inr (m, None))"

definition key_ExpirationDate :: "'ti Env \<Rightarrow> 'ti Model \<Rightarrow> KeyMsg \<Rightarrow> 'ti result" where
  "key_ExpirationDate E m k =
     (let (ti, c) = ti_Update E (ExpirationInput m) k;
          m1 = m\<lparr>ExpirationInput := ti\<rparr>;
          textCmd = text_cmd c
      in if key_Type k = KeyEnter then
           (let v = strings_TrimSpace E (ti_Value E (ExpirationInput m1))
            in if v = [] then Inr (m1\<lparr>Status := ''Expiration date is required.''\<rparr>, textCmd)
               else case time_Parse v of
                 None \<Rightarrow>
                   Inr (m1\<lparr>Status := ''Invalid date format. Please use YYYY-MM-DD.''\<rparr>, textCmd)
               | Some _ \<Rightarrow>
                   Inr (m1\<lparr>ExpirationDate := v, Step := StepConfirm,
                            ExpirationInput := ti_Blur E (ExpirationInput m1),
                            Status := ''Review the summary and press Enter to create the exemption.''\<rparr>,
                        textCmd))
         else Inr (m1, textCmd))"

definition key_Confirm :: "'ti Model \<Rightarrow> KeyMsg \<Rightarrow> 'ti result" where
  "key_Confirm m k =
     (if key_Type k = KeyEnter then
        (if SelectedAssignment m < 0 \<or> Ticket m = [] \<or> RequestUser m = []
            \<or> SelectedSubscription m < 0 \<or> SelectedResourceGroup m < 0
         then Inr (m\<lparr>Status := ''Missing information. Use q to abort.''\<rparr>, None)
         else
           let m1 = m\<lparr>Step := StepCreating\<rparr>;
               assign = CurrentAssignment_val m1
           in case go_index (ResourceGroups m1) (SelectedResourceGroup m1) of
                Inl p \<Rightarrow> Inl p
              | Inr rg \<Rightarrow>
                  Inr (m1\<lparr>Status := ''Creating Azure Policy exemption...''\<rparr>,
                       Some (createExemptionCmd (rg_ID rg) assign (SelectedDefinitionIDs m1)
                               (Ticket m1) (RequestUser m1) (ExpirationDate m1))))
      else Inr (m, None))"

text \<open>The switch on \<open>m.Step\<close>; the loading steps, \<open>Done\<close> and \<open>Error\<close> take no key.\<close>

definition handleKey :: "'ti Env \<Rightarrow> string \<Rightarrow> 'ti Model \<Rightarrow> KeyMsg \<Rightarrow> 'ti result" where
  "handleKey E now30 m k =
     (case Step m of
        StepSelectSubscription \<Rightarrow> key_SelectSubscription m k
      | StepSelectAssignment \<Rightarrow> key_SelectAssignment m k
      | StepAssignmentScope \<Rightarrow> key_AssignmentScope m k
      | StepSelectDefinitions \<Rightarrow> key_SelectDefinitions m k
      | StepSelectResourceGroup \<Rightarrow> key_SelectResourceGroup E m k
      | StepTicket \<Rightarrow> key_Ticket E m k
      | StepUsers \<Rightarrow> key_Users E m k
      | StepExpirationChoice \<Rightarrow> key_ExpirationChoice E now30 m k
      | StepExpirationDate \<Rightarrow> key_ExpirationDate E m k
      | StepConfirm \<Rightarrow> key_Confirm m k
      | _ \<Rightarrow> Inr (m, None))"

section \<open>The transition function (tui/update.go, \<open>Update\<close>)\<close>

definition Update :: "'ti Env \<Rightarrow> string \<Rightarrow> 'ti Model \<Rightarrow> Msg \<Rightarrow> 'ti result" where
  "Update E now30 m msg =
     (case msg of
        KeyMsg k \<Rightarrow>
          if key_String k = ''ctrl+c'' \<or> key_String k = ''q'' then Inr (m, Some Quit)
          else handleKey E now30 m k
      | subscriptionsLoadedMsg subscriptions err \<Rightarrow>
          (case err of
             Some e \<Rightarrow> Inr (Fail m e)
           | None \<Rightarrow>
               if len subscriptions = 0
               then Inr (Fail m ''no subscriptions returned by Azure CLI'')
               else Inr (m\<lparr>Subscriptions := subscriptions, Cursor := 0,
                            SelectedSubscription := - 1, Step := StepSelectSubscription,
                            Status := ''Use '' @ arrows
                              @ '' to highlight a subscription and press Enter to continue.''\<rparr>,
                         None))
      | assignmentsLoadedMsg assignments err \<Rightarrow>
          (case err of
             Some e \<Rightarrow> Inr (Fail m e)
           | None \<Rightarrow>
               if len assignments = 0 then
                 (let sub = CurrentSubscription_val m
                  in Inr (Fail m (''no policy assignments were returned for subscription ''
                                  @ sub_Name sub @ '' ('' @ ShortID sub @ '')'')))
               else Inr (m\<lparr>Assignments := assignments, SelectedAssignment := - 1,
                            AssignmentDefinitions := [], SelectedDefinitionIDs := fmempty,
                            PartialExemption := False, Cursor := 0,
                            Step := StepSelectAssignment,
                            Status := ''Use '' @ arrows
                              @ '' to highlight an assignment and press Enter to continue.''\<rparr>,
                         None))
      | assignmentDefinitionsLoadedMsg definitions err \<Rightarrow>
          (case err of
             Some e \<Rightarrow> Inr (Fail m e)
           | None \<Rightarrow>
               let m1 = m\<lparr>AssignmentDefinitions := definitions,
                           SelectedDefinitionIDs := fmempty, PartialExemption := False\<rparr>
               in if len definitions > 1 then
                    Inr (m1\<lparr>Step := StepAssignmentScope, Cursor := 0,
                             Status := ''Exempt entire assignment or select specific definitions?''\<rparr>,
                         None)
                  else
                    let m2 = m1\<lparr>PartialExemption := False, Step := StepLoadingResourceGroups,
                                 Status := ''Loading resource groups...''\<rparr>
                    in Inr (m2, Some (fetchResourceGroupsCmd (CurrentSubscription_val m2))))
      | resourceGroupsLoadedMsg resourceGroups err \<Rightarrow>
          (case err of
             Some e \<Rightarrow> Inr (Fail m e)
           | None \<Rightarrow>
               let sub = CurrentSubscription_val m;
                   entireSub = \<lparr>rg_ID = Scope sub, rg_Name = ''Entire Subscription''\<rparr>
               in Inr (m\<lparr>ResourceGroups := [entireSub] @ resourceGroups,
                          SelectedResourceGroup := - 1, Cursor := 0,
                          Step := StepSelectResourceGroup,
                          Status := ''Select the scope for the exemption (Subscription or Resource Group).''\<rparr>,
                       None))
      | exemptionCreatedMsg output err \<Rightarrow>
          (case err of
             Some e \<Rightarrow> Inr (Fail m e)
           | None \<Rightarrow>
               Inr (m\<lparr>CreateOutput := output, Step := StepDone,
                       Status := ''Exemption created successfully. Press q to exit.''\<rparr>,
                    None))
      | OtherMsg \<Rightarrow> Inr (m, None))"

section \<open>Runs of the wizard\<close>

text \<open>
  The states the wizard can be in: the initial one, and every state \<open>Update\<close> returns
  from such a state, for any message and any reading of the clock. A panic ends the
  program, so it yields no state. Completion messages are accepted in every step, as in
  the code.
\<close>

inductive reachable :: "'ti Env \<Rightarrow> 'ti Model \<Rightarrow> bool" for E :: "'ti Env" where
  reachable_init: "reachable E (NewModel E)"
| reachable_step: "reachable E m \<Longrightarrow> Update E now30 m msg = Inr (m', c) \<Longrightarrow> reachable E m'"

text \<open>Feeding a list of messages (each with the clock's date) to \<open>Update\<close>, in order.\<close>

fun run :: "'ti Env \<Rightarrow> 'ti Model \<Rightarrow> (string \<times> Msg) list \<Rightarrow> panic + 'ti Model" where
  "run E m [] = Inr m"
| "run E m ((now30, msg) # rest) =
     (case Update E now30 m msg of
        Inl p \<Rightarrow> Inl p
      | Inr (m', c) \<Rightarrow> run E m' rest)"

text \<open>
  The length of the list a step shows and moves the cursor in (\<open>View\<close> and \<open>handleKey\<close>):
  one of the four fetched lists, or the two fixed options of \<open>AssignmentScope\<close> and
  \<open>ExpirationChoice\<close>; the other steps show no list.
\<close>

definition current_list_len :: "'ti Model \<Rightarrow> int option" where
  "current_list_len m =
     (case Step m of
        StepSelectSubscription \<Rightarrow> Some (len (Subscriptions m))
      | StepSelectAssignment \<Rightarrow> Some (len (Assignments m))
      | StepAssignmentScope \<Rightarrow> Some 2
      | StepSelectDefinitions \<Rightarrow> Some (len (AssignmentDefinitions m))
      | StepSelectResourceGroup \<Rightarrow> Some (len (ResourceGroups m))
      | StepExpirationChoice \<Rightarrow> Some 2
      | _ \<Rightarrow> None)"

text \<open>The plain keys: Enter, Space, and the arrows.\<close>

definition enter_key :: KeyMsg where
  "enter_key = \<lparr>key_Type = KeyEnter, key_String = ''enter''\<rparr>"

definition space_key :: KeyMsg where
  "space_key = \<lparr>key_Type = KeySpace, key_String = '' ''\<rparr>"

definition up_key :: KeyMsg where
  "up_key = \<lparr>key_Type = KeyUp, key_String = ''up''\<rparr>"

definition down_key :: KeyMsg where
  "down_key = \<lparr>key_Type = KeyDown, key_String = ''down''\<rparr>"

definition rune_key :: "string \<Rightarrow> KeyMsg" where
  "rune_key s = \<lparr>key_Type = KeyRunes, key_String = s\<rparr>"

text \<open>
  The asynchronous operations among the commands, and the operations a returned command
  schedules: \<open>tea.Quit\<close> and the text input's own command are not operations of the
  gateway.
\<close>

fun is_operation :: "Cmd \<Rightarrow> bool" where
  "is_operation Quit = False"
| "is_operation TextInputCmd = False"
| "is_operation _ = True"

definition scheduled :: "Cmd option \<Rightarrow> Cmd list" where
  "scheduled c = (case c of None \<Rightarrow> [] | Some x \<Rightarrow> if is_operation x then [x] else [])"

text \<open>
  The operation that belongs to a step (section 4.2 of the spec): list-assignments of
  the subscription, list-definitions of the assignment, list-resource-groups of the
  subscription, and create-record with the chosen scope, the assignment, the selected
  reference ids, ticket, requesters and expiration date.
\<close>

definition step_operation :: "'ti Model \<Rightarrow> Cmd option" where
  "step_operation m =
     (case Step m of
        StepLoadingAssignments \<Rightarrow> Some (fetchAssignmentsCmd (CurrentSubscription_val m))
      | StepLoadingAssignmentDefinitions \<Rightarrow>
          Some (fetchAssignmentDefinitionsCmd (CurrentAssignment_val m))
      | StepLoadingResourceGroups \<Rightarrow> Some (fetchResourceGroupsCmd (CurrentSubscription_val m))
      | StepCreating \<Rightarrow>
          (case go_index (ResourceGroups m) (SelectedResourceGroup m) of
             Inl _ \<Rightarrow> None
           | Inr rg \<Rightarrow>
               Some (createExemptionCmd (rg_ID rg) (CurrentAssignment_val m)
                       (SelectedDefinitionIDs m) (Ticket m) (RequestUser m) (ExpirationDate m)))
      | _ \<Rightarrow> None)"

text \<open>The steps that wait for an asynchronous operation, as the claim lists them.\<close>

definition loading_step :: "Step \<Rightarrow> bool" where
  "loading_step s =
     (s = StepLoadingAssignments \<or> s = StepLoadingAssignmentDefinitions
      \<or> s = StepLoadingResourceGroups \<or> s = StepCreating)"

text \<open>
  A rejected input: the transition returns, the step is the same and is not \<open>Error\<close>,
  the status is the given message, which is not empty, and the error value is
  untouched.
\<close>

definition rejected_with :: "string \<Rightarrow> 'ti Model \<Rightarrow> 'ti result \<Rightarrow> bool" where
  "rejected_with message m r =
     (case r of
        Inl _ \<Rightarrow> False
      | Inr (m', c) \<Rightarrow>
          Step m' = Step m \<and> Step m' \<noteq> StepError \<and> Status m' = message \<and> message \<noteq> []
          \<and> Err m' = Err m)"

text \<open>
  A simple text input for concrete runs: the text and the focus; a focused input
  appends the typed runes and ignores every other key. Trimming removes blanks at
  both ends.
\<close>

definition sample_TrimSpace :: "string \<Rightarrow> string" where
  "sample_TrimSpace s =
     rev (dropWhile (\<lambda>c. c = CHR '' '') (rev (dropWhile (\<lambda>c. c = CHR '' '') s)))"

definition sample_Env :: "(string \<times> bool) Env" where
  "sample_Env =
     \<lparr>ti_New = (\<lambda>placeholder prompt limit. ([], True)),
      ti_Update = (\<lambda>ti k. (if snd ti \<and> key_Type k = KeyRunes
                               then (fst ti @ key_String k, True) else ti, False)),
      ti_Value = fst,
      ti_SetValue = (\<lambda>ti v. (v, snd ti)),
      ti_Focus = (\<lambda>ti. (fst ti, True)),
      ti_Blur = (\<lambda>ti. (fst ti, False)),
      strings_TrimSpace = sample_TrimSpace\<rparr>"

text \<open>
  What holds in every reachable state: in a selection step the cursor is an index of
  the step's list, and the selection map holds no \<open>false\<close> entry.
\<close>

definition state_inv :: "'ti Model \<Rightarrow> bool" where
  "state_inv m =
     ((Step m = StepSelectSubscription \<longrightarrow> 0 \<le> Cursor m \<and> Cursor m < len (Subscriptions m)) \<and>
      (Step m = StepSelectAssignment \<longrightarrow> 0 \<le> Cursor m \<and> Cursor m < len (Assignments m)) \<and>
      (Step m = StepAssignmentScope \<longrightarrow>
         0 \<le> Cursor m \<and> Cursor m < 2 \<and> 1 < len (AssignmentDefinitions m)) \<and>
      (Step m = StepSelectDefinitions \<longrightarrow>
         0 \<le> Cursor m \<and> Cursor m < len (AssignmentDefinitions m)) \<and>
      (Step m = StepSelectResourceGroup \<longrightarrow> 0 \<le> Cursor m \<and> Cursor m < len (ResourceGroups m)) \<and>
      (Step m = StepExpirationChoice \<longrightarrow> 0 \<le> Cursor m \<and> Cursor m < 2) \<and>
      (\<forall>k. fmlookup (SelectedDefinitionIDs m) k \<noteq> Some False))"

section \<open>Sample data and sample runs\<close>

text \<open>
  Concrete entities and message sequences for the sample environment. The first four
  sequences follow the wizard as a user drives it; the last one starts with a
  completion message the wizard did not ask for, which the code accepts in any step.
\<close>

definition sample_sub_a :: Subscription where
  "sample_sub_a = \<lparr>sub_ID = ''/subscriptions/a'', sub_Name = ''Prod''\<rparr>"

definition sample_sub_b :: Subscription where
  "sample_sub_b = \<lparr>sub_ID = ''/subscriptions/b'', sub_Name = ''Test''\<rparr>"

definition sample_assignment :: PolicyAssignment where
  "sample_assignment =
     \<lparr>pa_ID = ''/subscriptions/a/providers/Microsoft.Authorization/policyAssignments/sec'',
      pa_Name = ''sec'', pa_DisplayName = ''Security baseline'',
      pa_Scope = ''/subscriptions/a'',
      pa_PolicyDefinitionID = ''/providers/Microsoft.Authorization/policySetDefinitions/base''\<rparr>"

definition sample_ref_1 :: PolicyDefinitionRef where
  "sample_ref_1 =
     \<lparr>ref_PolicyDefinitionID = ''/providers/Microsoft.Authorization/policyDefinitions/d1'',
      ref_ReferenceID = ''r1'', ref_DisplayName = ''Audit disks''\<rparr>"

definition sample_ref_2 :: PolicyDefinitionRef where
  "sample_ref_2 =
     \<lparr>ref_PolicyDefinitionID = ''/providers/Microsoft.Authorization/policyDefinitions/d2'',
      ref_ReferenceID = ''r2'', ref_DisplayName = ''Audit keys''\<rparr>"

definition sample_rg :: ResourceGroup where
  "sample_rg = \<lparr>rg_ID = ''/subscriptions/a/resourceGroups/web'', rg_Name = ''web''\<rparr>"

definition sample_day :: string where
  "sample_day = ''2024-07-15''"

definition at_day :: "Msg list \<Rightarrow> (string \<times> Msg) list" where
  "at_day msgs = map (\<lambda>msg. (sample_day, msg)) msgs"

definition to_SelectSubscription :: "(string \<times> Msg) list" where
  "to_SelectSubscription = at_day [subscriptionsLoadedMsg [sample_sub_a, sample_sub_b] None]"

definition to_SelectDefinitions :: "(string \<times> Msg) list" where
  "to_SelectDefinitions =
     to_SelectSubscription @
     at_day [KeyMsg enter_key,
             assignmentsLoadedMsg [sample_assignment] None,
             KeyMsg enter_key,
             assignmentDefinitionsLoadedMsg [sample_ref_1, sample_ref_2] None,
             KeyMsg down_key,
             KeyMsg enter_key]"

definition to_Ticket :: "(string \<times> Msg) list" where
  "to_Ticket =
     to_SelectSubscription @
     at_day [KeyMsg enter_key,
             assignmentsLoadedMsg [sample_assignment] None,
             KeyMsg enter_key,
             assignmentDefinitionsLoadedMsg [] None,
             resourceGroupsLoadedMsg [sample_rg] None,
             KeyMsg enter_key]"

definition to_Users :: "(string \<times> Msg) list" where
  "to_Users = to_Ticket @ at_day [KeyMsg (rune_key ''INC1''), KeyMsg enter_key]"

definition to_Confirm_unselected :: "(string \<times> Msg) list" where
  "to_Confirm_unselected =
     at_day [resourceGroupsLoadedMsg [] None,
             KeyMsg enter_key,
             KeyMsg (rune_key ''INC1''), KeyMsg enter_key,
             KeyMsg (rune_key ''alice''), KeyMsg enter_key,
             KeyMsg enter_key]"

definition at_ExpirationDate :: "string \<Rightarrow> (string \<times> bool) Model" where
  "at_ExpirationDate typed =
     (NewModel sample_Env)\<lparr>Step := StepExpirationDate, ExpirationInput := (typed, True)\<rparr>"

section \<open>Helper lemmas on the entities\<close>

lemma strings_Split_nonempty: "strings_Split sep s \<noteq> []"
  by (induction s) (auto split: list.splits)

lemma last_strings_Split:
  "last (strings_Split sep s) = rev (takeWhile (\<lambda>c. c \<noteq> sep) (rev s))"
proof (induction s)
  case Nil
  show ?case by simp
next
  case (Cons c cs)
  obtain p ps where ps: "strings_Split sep cs = p # ps"
    using strings_Split_nonempty [of sep cs] by (cases "strings_Split sep cs") auto
  show ?case
  proof (cases "\<forall>x \<in> set cs. x \<noteq> sep")
    case True
    then have tw: "takeWhile (\<lambda>c. c \<noteq> sep) (rev cs) = rev cs"
      by (simp add: takeWhile_eq_all_conv)
    with Cons ps have "last (p # ps) = cs" by simp
    moreover have "ps = []"
      using True ps
    proof (induction cs arbitrary: p ps)
      case Nil
      then show ?case by simp
    next
      case (Cons d ds)
      obtain q qs where qs: "strings_Split sep ds = q # qs"
        using strings_Split_nonempty [of sep ds] by (cases "strings_Split sep ds") auto
      from Cons.prems have "d \<noteq> sep" "\<forall>x \<in> set ds. x \<noteq> sep" by auto
      with Cons.IH [OF _ qs] Cons.prems(2) qs show ?case by auto
    qed
    ultimately show ?thesis
      using ps True by (auto simp: takeWhile_append takeWhile_eq_all_conv)
  next
    case False
    then have ex: "\<exists>x \<in> set (rev cs). \<not> x \<noteq> sep" by auto
    have "takeWhile (\<lambda>c. c \<noteq> sep) (rev cs @ [c]) = takeWhile (\<lambda>c. c \<noteq> sep) (rev cs)"
      using ex by (simp add: takeWhile_append1)
    moreover have "last (strings_Split sep (c # cs)) = last (strings_Split sep cs)"
    proof (cases "c = sep")
      case True
      then show ?thesis using ps by simp
    next
      case nsep: False
      have "ps \<noteq> []"
      proof
        assume "ps = []"
        with ps have one: "strings_Split sep cs = [p]" by simp
        have "\<And>p. strings_Split sep cs = [p] \<Longrightarrow> \<forall>x \<in> set cs. x \<noteq> sep"
        proof (induction cs)
          case Nil
          then show ?case by simp
        next
          case (Cons d ds)
          then show ?case
            by (auto split: if_splits list.splits simp: strings_Split_nonempty)
        qed
        with one False show False by blast
      qed
      then show ?thesis using ps nsep by simp
    qed
    ultimately show ?thesis using Cons by simp
  qed
qed

section \<open>Helper lemmas on the wizard\<close>

lemma CurrentSubscription_returns: "CurrentSubscription m = Inr (CurrentSubscription_val m)"
  by (simp add: CurrentSubscription_val_def CurrentSubscription_def go_index_def)

lemma CurrentAssignment_returns: "CurrentAssignment m = Inr (CurrentAssignment_val m)"
  by (simp add: CurrentAssignment_val_def CurrentAssignment_def go_index_def)

subsection \<open>The invariant of the reachable states\<close>

lemma cursor_up_inv: "state_inv m \<Longrightarrow> state_inv (cursor_up m)"
  by (auto simp: cursor_up_def state_inv_def)

lemma cursor_down_inv:
  "state_inv m \<Longrightarrow> current_list_len m = Some n \<Longrightarrow> state_inv (cursor_down n m)"
  by (auto simp: cursor_down_def state_inv_def current_list_len_def split: Step.splits)

lemma key_SelectSubscription_inv:
  "state_inv m \<Longrightarrow> Step m = StepSelectSubscription \<Longrightarrow>
   key_SelectSubscription m k = Inr (m', c) \<Longrightarrow> state_inv m'"
  unfolding key_SelectSubscription_def
  by (auto simp: Let_def cursor_up_inv cursor_down_inv current_list_len_def split: if_splits)
    (simp add: state_inv_def)

lemma key_SelectAssignment_inv:
  "state_inv m \<Longrightarrow> Step m = StepSelectAssignment \<Longrightarrow>
   key_SelectAssignment m k = Inr (m', c) \<Longrightarrow> state_inv m'"
  unfolding key_SelectAssignment_def
  by (auto simp: Let_def cursor_up_inv cursor_down_inv current_list_len_def split: if_splits)
    (simp add: state_inv_def)

lemma key_AssignmentScope_inv:
  "state_inv m \<Longrightarrow> Step m = StepAssignmentScope \<Longrightarrow>
   key_AssignmentScope m k = Inr (m', c) \<Longrightarrow> state_inv m'"
  unfolding key_AssignmentScope_def
  by (auto simp: Let_def cursor_up_inv cursor_down_inv current_list_len_def split: if_splits)
    (auto simp add: state_inv_def)

lemma key_SelectDefinitions_inv:
  "state_inv m \<Longrightarrow> Step m = StepSelectDefinitions \<Longrightarrow>
   key_SelectDefinitions m k = Inr (m', c) \<Longrightarrow> state_inv m'"
  unfolding key_SelectDefinitions_def
  by (auto simp: Let_def cursor_up_inv cursor_down_inv current_list_len_def split: if_splits sum.splits)
    (simp_all add: state_inv_def)

lemma key_SelectResourceGroup_inv:
  "state_inv m \<Longrightarrow> Step m = StepSelectResourceGroup \<Longrightarrow>
   key_SelectResourceGroup E m k = Inr (m', c) \<Longrightarrow> state_inv m'"
  unfolding key_SelectResourceGroup_def
  by (auto simp: Let_def cursor_up_inv cursor_down_inv current_list_len_def split: if_splits)
    (simp_all add: state_inv_def)

lemma key_Ticket_inv:
  "state_inv m \<Longrightarrow> Step m = StepTicket \<Longrightarrow>
   key_Ticket E m k = Inr (m', c) \<Longrightarrow> state_inv m'"
  unfolding key_Ticket_def
  by (auto simp: Let_def state_inv_def split: if_splits prod.splits)

lemma key_Users_inv:
  "state_inv m \<Longrightarrow> Step m = StepUsers \<Longrightarrow>
   key_Users E m k = Inr (m', c) \<Longrightarrow> state_inv m'"
  unfolding key_Users_def
  by (auto simp: Let_def state_inv_def split: if_splits prod.splits)

lemma key_ExpirationChoice_inv:
  "state_inv m \<Longrightarrow> Step m = StepExpirationChoice \<Longrightarrow>
   key_ExpirationChoice E n m k = Inr (m', c) \<Longrightarrow> state_inv m'"
  unfolding key_ExpirationChoice_def
  by (auto simp: Let_def cursor_up_inv cursor_down_inv current_list_len_def split: if_splits)
    (simp_all add: state_inv_def)

lemma key_ExpirationDate_inv:
  "state_inv m \<Longrightarrow> Step m = StepExpirationDate \<Longrightarrow>
   key_ExpirationDate E m k = Inr (m', c) \<Longrightarrow> state_inv m'"
  unfolding key_ExpirationDate_def
  by (auto simp: Let_def state_inv_def split: if_splits prod.splits option.splits)

lemma key_Confirm_inv:
  "state_inv m \<Longrightarrow> Step m = StepConfirm \<Longrightarrow>
   key_Confirm m k = Inr (m', c) \<Longrightarrow> state_inv m'"
  unfolding key_Confirm_def
  by (auto simp: Let_def state_inv_def split: if_splits sum.splits)

lemma handleKey_inv:
  assumes inv: "state_inv m" and h: "handleKey E n m k = Inr (m', c)"
  shows "state_inv m'"
proof (cases "Step m")
  case StepSelectSubscription
  with h have "key_SelectSubscription m k = Inr (m', c)" by (simp add: handleKey_def)
  with inv StepSelectSubscription show ?thesis by (rule key_SelectSubscription_inv)
next
  case StepSelectAssignment
  with h have "key_SelectAssignment m k = Inr (m', c)" by (simp add: handleKey_def)
  with inv StepSelectAssignment show ?thesis by (rule key_SelectAssignment_inv)
next
  case StepAssignmentScope
  with h have "key_AssignmentScope m k = Inr (m', c)" by (simp add: handleKey_def)
  with inv StepAssignmentScope show ?thesis by (rule key_AssignmentScope_inv)
next
  case StepSelectDefinitions
  with h have "key_SelectDefinitions m k = Inr (m', c)" by (simp add: handleKey_def)
  with inv StepSelectDefinitions show ?thesis by (rule key_SelectDefinitions_inv)
next
  case StepSelectResourceGroup
  with h have "key_SelectResourceGroup E m k = Inr (m', c)" by (simp add: handleKey_def)
  with inv StepSelectResourceGroup show ?thesis by (rule key_SelectResourceGroup_inv)
next
  case StepTicket
  with h have "key_Ticket E m k = Inr (m', c)" by (simp add: handleKey_def)
  with inv StepTicket show ?thesis by (rule key_Ticket_inv)
next
  case StepUsers
  with h have "key_Users E m k = Inr (m', c)" by (simp add: handleKey_def)
  with inv StepUsers show ?thesis by (rule key_Users_inv)
next
  case StepExpirationChoice
  with h have "key_ExpirationChoice E n m k = Inr (m', c)" by (simp add: handleKey_def)
  with inv StepExpirationChoice show ?thesis by (rule key_ExpirationChoice_inv)
next
  case StepExpirationDate
  with h have "key_ExpirationDate E m k = Inr (m', c)" by (simp add: handleKey_def)
  with inv StepExpirationDate show ?thesis by (rule key_ExpirationDate_inv)
next
  case StepConfirm
  with h have "key_Confirm m k = Inr (m', c)" by (simp add: handleKey_def)
  with inv StepConfirm show ?thesis by (rule key_Confirm_inv)
qed (use inv h in \<open>simp_all add: handleKey_def\<close>)

lemma Update_inv:
  assumes inv: "state_inv m" and u: "Update E n m msg = Inr (m', c)"
  shows "state_inv m'"
proof -
  from inv have sel: "\<forall>k. fmlookup (SelectedDefinitionIDs m) k \<noteq> Some False"
    by (simp add: state_inv_def)
  show ?thesis
  proof (cases msg)
    case (KeyMsg k)
    show ?thesis
    proof (cases "key_String k = ''ctrl+c'' \<or> key_String k = ''q''")
      case True
      with u KeyMsg have "m' = m" by (simp add: Update_def)
      with inv show ?thesis by simp
    next
      case False
      with u KeyMsg have "handleKey E n m k = Inr (m', c)" by (simp add: Update_def)
      with inv show ?thesis by (rule handleKey_inv)
    qed
  next
    case (subscriptionsLoadedMsg subs err)
    with u sel show ?thesis
      by (auto simp: Update_def Fail_def state_inv_def split: if_splits option.splits)
  next
    case (assignmentsLoadedMsg as err)
    with u sel show ?thesis
      by (auto simp: Update_def Fail_def state_inv_def Let_def split: if_splits option.splits)
  next
    case (assignmentDefinitionsLoadedMsg ds err)
    with u sel show ?thesis
      by (auto simp: Update_def Fail_def state_inv_def Let_def split: if_splits option.splits)
  next
    case (resourceGroupsLoadedMsg rgs err)
    with u sel show ?thesis
      by (auto simp: Update_def Fail_def state_inv_def Let_def split: if_splits option.splits)
  next
    case (exemptionCreatedMsg out err)
    with u sel show ?thesis
      by (auto simp: Update_def Fail_def state_inv_def Let_def split: if_splits option.splits)
  next
    case OtherMsg
    with u inv show ?thesis
      by (auto simp: Update_def)
  qed
qed

lemma NewModel_inv: "state_inv (NewModel E)"
  by (simp add: NewModel_def state_inv_def)

lemma reachable_inv: "reachable E m \<Longrightarrow> state_inv m"
  by (induction rule: reachable.induct) (auto intro: NewModel_inv Update_inv)

lemma reachable_run: "reachable E m \<Longrightarrow> run E m evs = Inr m' \<Longrightarrow> reachable E m'"
proof (induction evs arbitrary: m)
  case Nil
  then show ?case by simp
next
  case (Cons ev evs)
  obtain n msg where ev: "ev = (n, msg)" by (cases ev)
  from Cons.prems(2) ev obtain m1 c where
    u: "Update E n m msg = Inr (m1, c)" and r: "run E m1 evs = Inr m'"
    by (auto split: sum.splits)
  from reachable_step [OF Cons.prems(1) u] have "reachable E m1" .
  with Cons.IH r show ?case by blast
qed

subsection \<open>Facts used by the claims\<close>

lemma CurrentSubscription_val_eq:
  "CurrentSubscription_val m =
     (if 0 \<le> SelectedSubscription m \<and> SelectedSubscription m < len (Subscriptions m)
      then Subscriptions m ! nat (SelectedSubscription m)
      else if Subscriptions m = [] then zero_Subscription else Subscriptions m ! 0)"
  by (auto simp: CurrentSubscription_val_def CurrentSubscription_def go_index_def)

lemma CurrentAssignment_val_eq:
  "CurrentAssignment_val m =
     (if 0 \<le> SelectedAssignment m \<and> SelectedAssignment m < len (Assignments m)
      then Assignments m ! nat (SelectedAssignment m)
      else if Assignments m = [] then zero_PolicyAssignment else Assignments m ! 0)"
  by (auto simp: CurrentAssignment_val_def CurrentAssignment_def go_index_def)

lemma time_Parse_examples:
  "time_Parse ''2024-02-30'' = None"
  "time_Parse ''2024-06-15'' = Some (2024, 6, 15)"
  by (simp_all add: time_Parse_def isDigit_def digit_value_def atoi4_def skip_def getnum_def
      daysIn_def isLeap_def)

lemma enter_key_simps:
  "key_Type enter_key = KeyEnter" "key_String enter_key = ''enter''"
  "\<not> is_up enter_key" "\<not> is_down enter_key"
  by (simp_all add: enter_key_def is_up_def is_down_def)

lemma Update_enter: "Update E now30 m (KeyMsg enter_key) = handleKey E now30 m enter_key"
  by (simp add: Update_def enter_key_simps)

lemma step_operation_is_operation: "step_operation m = Some op \<Longrightarrow> is_operation op"
  by (auto simp: step_operation_def split: Step.splits sum.splits)

lemma scheduled_length: "length (scheduled c) \<le> 1"
  by (simp add: scheduled_def split: option.splits)

lemma CurrentSubscription_val_Status:
  "CurrentSubscription_val (m\<lparr>Status := s\<rparr>) = CurrentSubscription_val m"
  by (auto simp: CurrentSubscription_val_def CurrentSubscription_def)

lemma CurrentAssignment_val_Status:
  "CurrentAssignment_val (m\<lparr>Status := s\<rparr>) = CurrentAssignment_val m"
  by (auto simp: CurrentAssignment_val_def CurrentAssignment_def)

lemma key_SelectSubscription_schedules:
  "key_SelectSubscription m k = Inr (m', c) \<Longrightarrow> Step m = StepSelectSubscription \<Longrightarrow> loading_step (Step m') \<Longrightarrow>
   c = step_operation m' \<and> c \<noteq> None"
  by (auto simp: CurrentSubscription_val_Status CurrentAssignment_val_Status key_SelectSubscription_def step_operation_def loading_step_def Let_def cursor_up_def
      cursor_down_def split: if_splits)

lemma key_SelectAssignment_schedules:
  "key_SelectAssignment m k = Inr (m', c) \<Longrightarrow> Step m = StepSelectAssignment \<Longrightarrow> loading_step (Step m') \<Longrightarrow>
   c = step_operation m' \<and> c \<noteq> None"
  by (auto simp: CurrentSubscription_val_Status CurrentAssignment_val_Status key_SelectAssignment_def step_operation_def loading_step_def Let_def cursor_up_def
      cursor_down_def split: if_splits)

lemma key_AssignmentScope_schedules:
  "key_AssignmentScope m k = Inr (m', c) \<Longrightarrow> Step m = StepAssignmentScope \<Longrightarrow> loading_step (Step m') \<Longrightarrow>
   c = step_operation m' \<and> c \<noteq> None"
  by (auto simp: CurrentSubscription_val_Status CurrentAssignment_val_Status key_AssignmentScope_def step_operation_def loading_step_def Let_def cursor_up_def
      cursor_down_def split: if_splits)

lemma key_SelectDefinitions_schedules:
  "key_SelectDefinitions m k = Inr (m', c) \<Longrightarrow> Step m = StepSelectDefinitions \<Longrightarrow> loading_step (Step m') \<Longrightarrow>
   c = step_operation m' \<and> c \<noteq> None"
  by (auto simp: CurrentSubscription_val_Status CurrentAssignment_val_Status key_SelectDefinitions_def step_operation_def loading_step_def Let_def cursor_up_def
      cursor_down_def split: if_splits sum.splits)

lemma key_SelectResourceGroup_schedules:
  "key_SelectResourceGroup E m k = Inr (m', c) \<Longrightarrow> Step m = StepSelectResourceGroup \<Longrightarrow> loading_step (Step m') \<Longrightarrow>
   c = step_operation m' \<and> c \<noteq> None"
  by (auto simp: CurrentSubscription_val_Status CurrentAssignment_val_Status key_SelectResourceGroup_def step_operation_def loading_step_def Let_def cursor_up_def
      cursor_down_def split: if_splits)

lemma key_Ticket_schedules:
  "key_Ticket E m k = Inr (m', c) \<Longrightarrow> Step m = StepTicket \<Longrightarrow> loading_step (Step m') \<Longrightarrow>
   c = step_operation m' \<and> c \<noteq> None"
  by (auto simp: CurrentSubscription_val_Status CurrentAssignment_val_Status key_Ticket_def step_operation_def loading_step_def Let_def cursor_up_def
      cursor_down_def split: if_splits prod.splits)

lemma key_Users_schedules:
  "key_Users E m k = Inr (m', c) \<Longrightarrow> Step m = StepUsers \<Longrightarrow> loading_step (Step m') \<Longrightarrow>
   c = step_operation m' \<and> c \<noteq> None"
  by (auto simp: CurrentSubscription_val_Status CurrentAssignment_val_Status key_Users_def step_operation_def loading_step_def Let_def cursor_up_def
      cursor_down_def split: if_splits prod.splits)

lemma key_ExpirationChoice_schedules:
  "key_ExpirationChoice E n m k = Inr (m', c) \<Longrightarrow> Step m = StepExpirationChoice \<Longrightarrow> loading_step (Step m') \<Longrightarrow>
   c = step_operation m' \<and> c \<noteq> None"
  by (auto simp: CurrentSubscription_val_Status CurrentAssignment_val_Status key_ExpirationChoice_def step_operation_def loading_step_def Let_def cursor_up_def
      cursor_down_def split: if_splits)

lemma key_ExpirationDate_schedules:
  "key_ExpirationDate E m k = Inr (m', c) \<Longrightarrow> Step m = StepExpirationDate \<Longrightarrow> loading_step (Step m') \<Longrightarrow>
   c = step_operation m' \<and> c \<noteq> None"
  by (auto simp: CurrentSubscription_val_Status CurrentAssignment_val_Status key_ExpirationDate_def step_operation_def loading_step_def Let_def cursor_up_def
      cursor_down_def split: if_splits prod.splits option.splits)

lemma key_Confirm_schedules:
  "key_Confirm m k = Inr (m', c) \<Longrightarrow> Step m = StepConfirm \<Longrightarrow> loading_step (Step m') \<Longrightarrow>
   c = step_operation m' \<and> c \<noteq> None"
  by (auto simp: CurrentSubscription_val_Status CurrentAssignment_val_Status key_Confirm_def step_operation_def loading_step_def Let_def cursor_up_def
      cursor_down_def split: if_splits sum.splits)

lemma handleKey_schedules:
  assumes h: "handleKey E n m k = Inr (m', c)"
    and l: "loading_step (Step m')" and d: "Step m' \<noteq> Step m"
  shows "c = step_operation m' \<and> c \<noteq> None"
proof (cases "Step m")
    case StepSelectSubscription
    with h have "key_SelectSubscription m k = Inr (m', c)" by (simp add: handleKey_def)
    from key_SelectSubscription_schedules [OF this StepSelectSubscription l] show ?thesis .
  next
    case StepSelectAssignment
    with h have "key_SelectAssignment m k = Inr (m', c)" by (simp add: handleKey_def)
    from key_SelectAssignment_schedules [OF this StepSelectAssignment l] show ?thesis .
  next
    case StepAssignmentScope
    with h have "key_AssignmentScope m k = Inr (m', c)" by (simp add: handleKey_def)
    from key_AssignmentScope_schedules [OF this StepAssignmentScope l] show ?thesis .
  next
    case StepSelectDefinitions
    with h have "key_SelectDefinitions m k = Inr (m', c)" by (simp add: handleKey_def)
    from key_SelectDefinitions_schedules [OF this StepSelectDefinitions l] show ?thesis .
  next
    case StepSelectResourceGroup
    with h have "key_SelectResourceGroup E m k = Inr (m', c)" by (simp add: handleKey_def)
    from key_SelectResourceGroup_schedules [OF this StepSelectResourceGroup l] show ?thesis .
  next
    case StepTicket
    with h have "key_Ticket E m k = Inr (m', c)" by (simp add: handleKey_def)
    from key_Ticket_schedules [OF this StepTicket l] show ?thesis .
  next
    case StepUsers
    with h have "key_Users E m k = Inr (m', c)" by (simp add: handleKey_def)
    from key_Users_schedules [OF this StepUsers l] show ?thesis .
  next
    case StepExpirationChoice
    with h have "key_ExpirationChoice E n m k = Inr (m', c)" by (simp add: handleKey_def)
    from key_ExpirationChoice_schedules [OF this StepExpirationChoice l] show ?thesis .
  next
    case StepExpirationDate
    with h have "key_ExpirationDate E m k = Inr (m', c)" by (simp add: handleKey_def)
    from key_ExpirationDate_schedules [OF this StepExpirationDate l] show ?thesis .
  next
    case StepConfirm
    with h have "key_Confirm m k = Inr (m', c)" by (simp add: handleKey_def)
    from key_Confirm_schedules [OF this StepConfirm l] show ?thesis .
qed (use h d in \<open>simp_all add: handleKey_def\<close>)

lemma Update_schedules:
  assumes u: "Update E n m msg = Inr (m', c)"
    and l: "loading_step (Step m')" and d: "Step m' \<noteq> Step m"
  shows "c = step_operation m' \<and> c \<noteq> None"
proof (cases msg)
  case (KeyMsg k)
  show ?thesis
  proof (cases "key_String k = ''ctrl+c'' \<or> key_String k = ''q''")
    case True
    with u KeyMsg d show ?thesis by (simp add: Update_def)
  next
    case False
    with u KeyMsg have "handleKey E n m k = Inr (m', c)" by (simp add: Update_def)
    from handleKey_schedules [OF this l d] show ?thesis .
  qed
next
  case (subscriptionsLoadedMsg subs err)
  with u l show ?thesis
    by (auto simp: Update_def Fail_def loading_step_def split: if_splits option.splits)
next
  case (assignmentsLoadedMsg as err)
  with u l show ?thesis
    by (auto simp: Update_def Fail_def loading_step_def Let_def split: if_splits option.splits)
next
  case (assignmentDefinitionsLoadedMsg ds err)
  with u l show ?thesis
    by (auto simp: Update_def Fail_def loading_step_def step_operation_def Let_def
        split: if_splits option.splits)
next
  case (resourceGroupsLoadedMsg rgs err)
  with u l show ?thesis
    by (auto simp: Update_def Fail_def loading_step_def Let_def split: if_splits option.splits)
next
  case (exemptionCreatedMsg out err)
  with u l show ?thesis
    by (auto simp: Update_def Fail_def loading_step_def Let_def split: if_splits option.splits)
next
  case OtherMsg
  with u d show ?thesis by (simp add: Update_def)
qed

lemmas eval_defs =
  Update_def handleKey_def key_SelectSubscription_def key_SelectAssignment_def
  key_AssignmentScope_def key_SelectDefinitions_def key_SelectResourceGroup_def key_Ticket_def
  key_Users_def key_ExpirationChoice_def key_ExpirationDate_def key_Confirm_def
  NewModel_def sample_Env_def sample_TrimSpace_def enter_key_def down_key_def up_key_def
  space_key_def rune_key_def is_up_def is_down_def cursor_up_def cursor_down_def text_cmd_def
  Let_def go_index_def map_get_def map_len_def Fail_def CurrentSubscription_val_eq
  CurrentAssignment_val_eq at_day_def to_SelectSubscription_def to_SelectDefinitions_def
  to_Ticket_def to_Users_def to_Confirm_unselected_def at_ExpirationDate_def

section \<open>The claims\<close>

text \<open>
  Claim C1. A definitions-loaded message without error and with at most one definition
  takes the wizard, whatever step it is in, straight to \<open>StepLoadingResourceGroups\<close>:
  the partial flag is false, the selection map is empty, and the resource groups of the
  current subscription are fetched; \<open>StepAssignmentScope\<close> and \<open>StepSelectDefinitions\<close>
  are not entered. With two or more definitions the wizard is in
  \<open>StepAssignmentScope\<close> with the cursor at 0 and nothing is scheduled, so no resource
  group is loaded before that step.
\<close>

theorem definitions_loaded_branch:
  "(length defs \<le> 1 \<longrightarrow>
      (\<exists>m'. Update E now30 m (assignmentDefinitionsLoadedMsg defs None)
               = Inr (m', Some (fetchResourceGroupsCmd (CurrentSubscription_val m)))
         \<and> Step m' = StepLoadingResourceGroups
         \<and> \<not> PartialExemption m'
         \<and> SelectedDefinitionIDs m' = fmempty
         \<and> AssignmentDefinitions m' = defs)) \<and>
   (2 \<le> length defs \<longrightarrow>
      (\<exists>m'. Update E now30 m (assignmentDefinitionsLoadedMsg defs None) = Inr (m', None)
         \<and> Step m' = StepAssignmentScope
         \<and> Cursor m' = 0
         \<and> \<not> PartialExemption m'
         \<and> SelectedDefinitionIDs m' = fmempty
         \<and> AssignmentDefinitions m' = defs))"
  by (auto simp: Update_def Let_def CurrentSubscription_val_eq)

theorem definitions_loaded_branch_witness:
  "(\<exists>m'. Update sample_Env ''2024-01-31'' (NewModel sample_Env)
            (assignmentDefinitionsLoadedMsg
               [\<lparr>ref_PolicyDefinitionID = ''d1'', ref_ReferenceID = ''r1'', ref_DisplayName = ''One''\<rparr>]
               None)
          = Inr (m', Some (fetchResourceGroupsCmd zero_Subscription))
      \<and> Step m' = StepLoadingResourceGroups
      \<and> SelectedDefinitionIDs m' = fmempty) \<and>
   (\<exists>m'. Update sample_Env ''2024-01-31'' (NewModel sample_Env)
            (assignmentDefinitionsLoadedMsg
               [\<lparr>ref_PolicyDefinitionID = ''d1'', ref_ReferenceID = ''r1'', ref_DisplayName = ''One''\<rparr>,
                \<lparr>ref_PolicyDefinitionID = ''d2'', ref_ReferenceID = ''r2'', ref_DisplayName = ''Two''\<rparr>]
               None)
          = Inr (m', None)
      \<and> Step m' = StepAssignmentScope
      \<and> Cursor m' = 0)"
proof -
  have z: "CurrentSubscription_val (NewModel sample_Env) = zero_Subscription"
    by (simp add: CurrentSubscription_val_def CurrentSubscription_def NewModel_def)
  show ?thesis
    using
      definitions_loaded_branch [of
        "[\<lparr>ref_PolicyDefinitionID = ''d1'', ref_ReferenceID = ''r1'', ref_DisplayName = ''One''\<rparr>]"
        sample_Env "''2024-01-31''" "NewModel sample_Env"]
      definitions_loaded_branch [of
        "[\<lparr>ref_PolicyDefinitionID = ''d1'', ref_ReferenceID = ''r1'', ref_DisplayName = ''One''\<rparr>,
          \<lparr>ref_PolicyDefinitionID = ''d2'', ref_ReferenceID = ''r2'', ref_DisplayName = ''Two''\<rparr>]"
        sample_Env "''2024-01-31''" "NewModel sample_Env"]
    by (simp add: z) blast
qed

text \<open>
  Claim C2. A resource-groups-loaded message without error, carrying \<open>n\<close> fetched
  groups, stores \<open>n + 1\<close> groups: at index 0 the entry named "Entire Subscription" whose
  id is the scope of the current subscription, followed by the fetched groups in
  order.
\<close>

theorem resource_groups_loaded:
  "\<exists>m'. Update E now30 m (resourceGroupsLoadedMsg rgs None) = Inr (m', None)
     \<and> Step m' = StepSelectResourceGroup
     \<and> length (ResourceGroups m') = length rgs + 1
     \<and> ResourceGroups m' ! 0
         = \<lparr>rg_ID = Scope (CurrentSubscription_val m), rg_Name = ''Entire Subscription''\<rparr>
     \<and> drop 1 (ResourceGroups m') = rgs"
  by (simp add: Update_def Let_def)

text \<open>
  Claim C3. A subscriptions-loaded message with an empty list and no error puts the
  wizard in \<open>StepError\<close> with the error "no subscriptions returned by Azure CLI"; an
  assignments-loaded message with an empty list and no error puts it in \<open>StepError\<close>
  with a message that contains the current subscription's name. In both cases the list
  is not taken as a state to select from: the stored lists and the step of a selection
  are not set.
\<close>

theorem empty_result_is_failure:
  "Update E now30 m (subscriptionsLoadedMsg [] None)
     = Inr (m\<lparr>Err := Some ''no subscriptions returned by Azure CLI'',
              Step := StepError, Status := []\<rparr>, None) \<and>
   (\<exists>m' e. Update E now30 m (assignmentsLoadedMsg [] None) = Inr (m', None)
      \<and> Step m' = StepError
      \<and> Err m' = Some e
      \<and> e = ''no policy assignments were returned for subscription ''
             @ sub_Name (CurrentSubscription_val m)
             @ '' ('' @ ShortID (CurrentSubscription_val m) @ '')''
      \<and> sublist (sub_Name (CurrentSubscription_val m)) e
      \<and> Assignments m' = Assignments m)"
proof -
  have "sublist (sub_Name s)
          (''no policy assignments were returned for subscription ''
           @ sub_Name s @ '' ('' @ ShortID s @ '')'')" for s
    by (rule sublist_appendI)
  from this [of "CurrentSubscription_val m"] show ?thesis
    by (simp add: Update_def Fail_def Let_def)
qed

text \<open>
  Claim C4. In \<open>StepExpirationDate\<close>, Enter with the trimmed input \<open>2024-02-30\<close>, which
  has the shape of a date but names no day of the calendar, keeps the step and sets the
  status "Invalid date format. Please use YYYY-MM-DD."; Enter with an empty trimmed
  input keeps the step and sets the status "Expiration date is required."; neither
  changes the stored date. Enter with the trimmed input \<open>2024-06-15\<close> stores exactly
  this text as the expiration date and moves to \<open>StepConfirm\<close>. The trimmed input is
  what \<open>strings.TrimSpace\<close> returns for the value of the widget after it has seen the
  key.
\<close>

theorem expiration_date_enter:
  assumes "Step m = StepExpirationDate"
    and "v = strings_TrimSpace E (ti_Value E (fst (ti_Update E (ExpirationInput m) enter_key)))"
  shows
    "(v = ''2024-02-30'' \<longrightarrow>
        (\<exists>m' c. Update E now30 m (KeyMsg enter_key) = Inr (m', c)
           \<and> Step m' = StepExpirationDate
           \<and> Status m' = ''Invalid date format. Please use YYYY-MM-DD.''
           \<and> ExpirationDate m' = ExpirationDate m)) \<and>
     (v = [] \<longrightarrow>
        (\<exists>m' c. Update E now30 m (KeyMsg enter_key) = Inr (m', c)
           \<and> Step m' = StepExpirationDate
           \<and> Status m' = ''Expiration date is required.''
           \<and> ExpirationDate m' = ExpirationDate m)) \<and>
     (v = ''2024-06-15'' \<longrightarrow>
        (\<exists>m' c. Update E now30 m (KeyMsg enter_key) = Inr (m', c)
           \<and> Step m' = StepConfirm
           \<and> ExpirationDate m' = ''2024-06-15''))"
  using assms
  by (cases "ti_Update E (ExpirationInput m) enter_key")
    (simp add: Update_enter handleKey_def key_ExpirationDate_def enter_key_simps
      time_Parse_examples Let_def)

theorem expiration_date_enter_witness:
  "(\<exists>m' c. Update sample_Env sample_day (at_ExpirationDate '' 2024-02-30'') (KeyMsg enter_key)
             = Inr (m', c)
      \<and> Step m' = StepExpirationDate
      \<and> Status m' = ''Invalid date format. Please use YYYY-MM-DD.'') \<and>
   (\<exists>m' c. Update sample_Env sample_day (at_ExpirationDate ''  '') (KeyMsg enter_key)
             = Inr (m', c)
      \<and> Step m' = StepExpirationDate
      \<and> Status m' = ''Expiration date is required.'') \<and>
   (\<exists>m' c. Update sample_Env sample_day (at_ExpirationDate ''2024-06-15 '') (KeyMsg enter_key)
             = Inr (m', c)
      \<and> Step m' = StepConfirm
      \<and> ExpirationDate m' = ''2024-06-15'')"
proof -
  have s: "Step (at_ExpirationDate typed) = StepExpirationDate" for typed
    by (simp add: at_ExpirationDate_def)
  have v: "strings_TrimSpace sample_Env
             (ti_Value sample_Env
                (fst (ti_Update sample_Env (ExpirationInput (at_ExpirationDate typed)) enter_key)))
           = sample_TrimSpace typed" for typed
    by (simp add: at_ExpirationDate_def sample_Env_def enter_key_def)
  have t: "sample_TrimSpace '' 2024-02-30'' = ''2024-02-30''" "sample_TrimSpace ''  '' = []"
    "sample_TrimSpace ''2024-06-15 '' = ''2024-06-15''"
    by (simp_all add: sample_TrimSpace_def)
  from expiration_date_enter [OF s, of "''2024-02-30''" sample_Env "'' 2024-02-30''" sample_day]
    expiration_date_enter [OF s, of "[]" sample_Env "''  ''" sample_day]
    expiration_date_enter [OF s, of "''2024-06-15''" sample_Env "''2024-06-15 ''" sample_day]
  show ?thesis
    unfolding v t by blast
qed

text \<open>
  Claim C5. In every reachable state a validation failure is local: Enter with a blank
  trimmed ticket in \<open>StepTicket\<close>, with a blank trimmed requester in \<open>StepUsers\<close>, with
  an empty selection map in \<open>StepSelectDefinitions\<close>, or in \<open>StepConfirm\<close> with a
  selection, the ticket or the requester missing, returns without a panic and changes
  nothing but the status (and, in the two text steps, the widget that saw the key).
  The status becomes the message of that branch: "A ticket number is required.",
  "At least one requester name is required.", "Select at least one definition or
  choose full assignment.", "Missing information. Use q to abort."; the step stays
  the same and is not \<open>StepError\<close>, and the error value is untouched.
\<close>

theorem validation_failures_are_local:
  assumes r: "reachable E m"
  shows
    "(Step m = StepTicket
        \<and> strings_TrimSpace E (ti_Value E (fst (ti_Update E (TicketInput m) enter_key))) = []
      \<longrightarrow> Update E now30 m (KeyMsg enter_key)
            = Inr (m\<lparr>TicketInput := fst (ti_Update E (TicketInput m) enter_key),
                     Status := ''A ticket number is required.''\<rparr>,
                   text_cmd (snd (ti_Update E (TicketInput m) enter_key)))
          \<and> rejected_with ''A ticket number is required.'' m
                (Update E now30 m (KeyMsg enter_key))) \<and>
     (Step m = StepUsers
        \<and> strings_TrimSpace E (ti_Value E (fst (ti_Update E (UserInput m) enter_key))) = []
      \<longrightarrow> Update E now30 m (KeyMsg enter_key)
            = Inr (m\<lparr>UserInput := fst (ti_Update E (UserInput m) enter_key),
                     Status := ''At least one requester name is required.''\<rparr>,
                   text_cmd (snd (ti_Update E (UserInput m) enter_key)))
          \<and> rejected_with ''At least one requester name is required.'' m
                (Update E now30 m (KeyMsg enter_key))) \<and>
     (Step m = StepSelectDefinitions \<and> map_len (SelectedDefinitionIDs m) = 0
      \<longrightarrow> Update E now30 m (KeyMsg enter_key)
            = Inr (m\<lparr>Status := ''Select at least one definition or choose full assignment.''\<rparr>,
                   None)
          \<and> rejected_with ''Select at least one definition or choose full assignment.'' m
                (Update E now30 m (KeyMsg enter_key))) \<and>
     (Step m = StepConfirm
        \<and> (SelectedAssignment m < 0 \<or> Ticket m = [] \<or> RequestUser m = []
             \<or> SelectedSubscription m < 0 \<or> SelectedResourceGroup m < 0)
      \<longrightarrow> Update E now30 m (KeyMsg enter_key)
            = Inr (m\<lparr>Status := ''Missing information. Use q to abort.''\<rparr>, None)
          \<and> rejected_with ''Missing information. Use q to abort.'' m
                (Update E now30 m (KeyMsg enter_key)))"
proof -
  have t: "Update E now30 m (KeyMsg enter_key)
            = Inr (m\<lparr>TicketInput := fst (ti_Update E (TicketInput m) enter_key),
                     Status := ''A ticket number is required.''\<rparr>,
                   text_cmd (snd (ti_Update E (TicketInput m) enter_key)))
          \<and> rejected_with ''A ticket number is required.'' m
                (Update E now30 m (KeyMsg enter_key))"
    if "Step m = StepTicket"
      and "strings_TrimSpace E (ti_Value E (fst (ti_Update E (TicketInput m) enter_key))) = []"
    using that
    by (cases "ti_Update E (TicketInput m) enter_key")
      (simp add: Update_enter handleKey_def key_Ticket_def enter_key_simps rejected_with_def)
  have us: "Update E now30 m (KeyMsg enter_key)
            = Inr (m\<lparr>UserInput := fst (ti_Update E (UserInput m) enter_key),
                     Status := ''At least one requester name is required.''\<rparr>,
                   text_cmd (snd (ti_Update E (UserInput m) enter_key)))
          \<and> rejected_with ''At least one requester name is required.'' m
                (Update E now30 m (KeyMsg enter_key))"
    if "Step m = StepUsers"
      and "strings_TrimSpace E (ti_Value E (fst (ti_Update E (UserInput m) enter_key))) = []"
    using that
    by (cases "ti_Update E (UserInput m) enter_key")
      (simp add: Update_enter handleKey_def key_Users_def enter_key_simps rejected_with_def)
  have d: "Update E now30 m (KeyMsg enter_key)
            = Inr (m\<lparr>Status := ''Select at least one definition or choose full assignment.''\<rparr>,
                   None)
          \<and> rejected_with ''Select at least one definition or choose full assignment.'' m
                (Update E now30 m (KeyMsg enter_key))"
    if s: "Step m = StepSelectDefinitions" and e: "map_len (SelectedDefinitionIDs m) = 0"
  proof -
    from reachable_inv [OF r] s have "AssignmentDefinitions m \<noteq> []"
      by (auto simp: state_inv_def)
    with s e show ?thesis
      by (simp add: Update_enter handleKey_def key_SelectDefinitions_def enter_key_simps
          rejected_with_def)
  qed
  have c: "Update E now30 m (KeyMsg enter_key)
            = Inr (m\<lparr>Status := ''Missing information. Use q to abort.''\<rparr>, None)
          \<and> rejected_with ''Missing information. Use q to abort.'' m
                (Update E now30 m (KeyMsg enter_key))"
    if "Step m = StepConfirm"
      and "SelectedAssignment m < 0 \<or> Ticket m = [] \<or> RequestUser m = []
           \<or> SelectedSubscription m < 0 \<or> SelectedResourceGroup m < 0"
    using that
    by (simp add: Update_enter handleKey_def key_Confirm_def enter_key_simps rejected_with_def)
  from t us d c show ?thesis by blast
qed

theorem validation_failures_are_local_witness:
  "(\<exists>m. run sample_Env (NewModel sample_Env) to_Ticket = Inr m
      \<and> Step m = StepTicket
      \<and> Status m = ''Provide the tracking ticket number linked to this exemption:''
      \<and> rejected_with ''A ticket number is required.'' m
           (Update sample_Env sample_day m (KeyMsg enter_key))) \<and>
   (\<exists>m. run sample_Env (NewModel sample_Env) to_Users = Inr m
      \<and> Step m = StepUsers
      \<and> Status m = ''Who is requesting this exemption? Provide one or more names.''
      \<and> rejected_with ''At least one requester name is required.'' m
           (Update sample_Env sample_day m (KeyMsg enter_key))) \<and>
   (\<exists>m. run sample_Env (NewModel sample_Env) to_SelectDefinitions = Inr m
      \<and> Step m = StepSelectDefinitions
      \<and> Status m = ''Select definitions to exempt (space to toggle, Enter to continue).''
      \<and> rejected_with ''Select at least one definition or choose full assignment.'' m
           (Update sample_Env sample_day m (KeyMsg enter_key))) \<and>
   (\<exists>m. run sample_Env (NewModel sample_Env) to_Confirm_unselected = Inr m
      \<and> Step m = StepConfirm
      \<and> Status m = ''Review the summary and press Enter to create the exemption.''
      \<and> rejected_with ''Missing information. Use q to abort.'' m
           (Update sample_Env sample_day m (KeyMsg enter_key)))"
proof -
  have "\<exists>m. run sample_Env (NewModel sample_Env) to_Ticket = Inr m \<and> Step m = StepTicket
          \<and> Status m = ''Provide the tracking ticket number linked to this exemption:''
          \<and> strings_TrimSpace sample_Env
               (ti_Value sample_Env (fst (ti_Update sample_Env (TicketInput m) enter_key))) = []"
    by (simp add: eval_defs)
  then obtain mt where rt: "run sample_Env (NewModel sample_Env) to_Ticket = Inr mt"
    and st: "Step mt = StepTicket"
    and xt: "Status mt = ''Provide the tracking ticket number linked to this exemption:''"
    and vt: "strings_TrimSpace sample_Env
               (ti_Value sample_Env (fst (ti_Update sample_Env (TicketInput mt) enter_key))) = []"
    by blast
  from validation_failures_are_local [OF reachable_run [OF reachable_init rt], of sample_day]
    st vt
  have a: "rejected_with ''A ticket number is required.'' mt
             (Update sample_Env sample_day mt (KeyMsg enter_key))" by blast
  have "\<exists>m. run sample_Env (NewModel sample_Env) to_Users = Inr m \<and> Step m = StepUsers
          \<and> Status m = ''Who is requesting this exemption? Provide one or more names.''
          \<and> strings_TrimSpace sample_Env
               (ti_Value sample_Env (fst (ti_Update sample_Env (UserInput m) enter_key))) = []"
    by (simp add: eval_defs)
  then obtain mu where ru: "run sample_Env (NewModel sample_Env) to_Users = Inr mu"
    and su: "Step mu = StepUsers"
    and xu: "Status mu = ''Who is requesting this exemption? Provide one or more names.''"
    and vu: "strings_TrimSpace sample_Env
               (ti_Value sample_Env (fst (ti_Update sample_Env (UserInput mu) enter_key))) = []"
    by blast
  from validation_failures_are_local [OF reachable_run [OF reachable_init ru], of sample_day]
    su vu
  have b: "rejected_with ''At least one requester name is required.'' mu
             (Update sample_Env sample_day mu (KeyMsg enter_key))" by blast
  have "\<exists>m. run sample_Env (NewModel sample_Env) to_SelectDefinitions = Inr m
          \<and> Step m = StepSelectDefinitions
          \<and> Status m = ''Select definitions to exempt (space to toggle, Enter to continue).''
          \<and> map_len (SelectedDefinitionIDs m) = 0"
    by (simp add: eval_defs)
  then obtain md where rd: "run sample_Env (NewModel sample_Env) to_SelectDefinitions = Inr md"
    and sd: "Step md = StepSelectDefinitions"
    and xd: "Status md = ''Select definitions to exempt (space to toggle, Enter to continue).''"
    and vd: "map_len (SelectedDefinitionIDs md) = 0"
    by blast
  from validation_failures_are_local [OF reachable_run [OF reachable_init rd], of sample_day]
    sd vd
  have c: "rejected_with ''Select at least one definition or choose full assignment.'' md
             (Update sample_Env sample_day md (KeyMsg enter_key))" by blast
  have "\<exists>m. run sample_Env (NewModel sample_Env) to_Confirm_unselected = Inr m
          \<and> Step m = StepConfirm
          \<and> Status m = ''Review the summary and press Enter to create the exemption.''
          \<and> SelectedAssignment m < 0"
    by (simp add: eval_defs)
  then obtain mc where rc: "run sample_Env (NewModel sample_Env) to_Confirm_unselected = Inr mc"
    and sc: "Step mc = StepConfirm"
    and xc: "Status mc = ''Review the summary and press Enter to create the exemption.''"
    and vc: "SelectedAssignment mc < 0"
    by blast
  from validation_failures_are_local [OF reachable_run [OF reachable_init rc], of sample_day]
    sc vc
  have d: "rejected_with ''Missing information. Use q to abort.'' mc
             (Update sample_Env sample_day mc (KeyMsg enter_key))" by blast
  from rt st xt a ru su xu b rd sd xd c rc sc xc d show ?thesis by blast
qed

text \<open>
  Claim C6. In every reachable state, a navigation key (up, k, down, j; not of the
  type Enter) is handled without a panic and keeps the step. Where the step has a list
  that is not empty, the cursor afterwards is an index of that list: up moves it to
  \<open>max 0 (Cursor - 1)\<close>, down to \<open>min (n - 1) (Cursor + 1)\<close>, so at index 0 up leaves
  it at 0 and at the last index down leaves it there; it never wraps around.
\<close>

theorem cursor_stays_in_bounds:
  assumes r: "reachable E m"
    and nav: "is_up k \<or> is_down k"
    and ne: "key_Type k \<noteq> KeyEnter"
  shows "\<exists>m' c. Update E now30 m (KeyMsg k) = Inr (m', c)
           \<and> Step m' = Step m
           \<and> current_list_len m' = current_list_len m
           \<and> (\<forall>n. current_list_len m = Some n \<and> 0 < n \<longrightarrow>
                  0 \<le> Cursor m' \<and> Cursor m' \<le> n - 1
                \<and> Cursor m' = (if is_up k then max 0 (Cursor m - 1)
                               else min (n - 1) (Cursor m + 1))
                \<and> (is_up k \<and> Cursor m = 0 \<longrightarrow> Cursor m' = 0)
                \<and> (is_down k \<and> Cursor m = n - 1 \<longrightarrow> Cursor m' = n - 1))"
proof -
  from reachable_inv [OF r] have inv: "state_inv m" .
  from nav have "key_String k \<noteq> ''ctrl+c''" "key_String k \<noteq> ''q''"
    by (auto simp: is_up_def is_down_def)
  then have u: "Update E now30 m (KeyMsg k) = handleKey E now30 m k"
    by (simp add: Update_def)
  show ?thesis
  proof (cases "Step m")
    case StepSelectSubscription
    with inv have b: "0 \<le> Cursor m" "Cursor m < len (Subscriptions m)"
      by (simp_all add: state_inv_def)
    from StepSelectSubscription b nav show ?thesis
      by (auto simp: u handleKey_def key_SelectSubscription_def current_list_len_def cursor_up_def cursor_down_def
          is_up_def is_down_def)
  next
    case StepSelectAssignment
    with inv have b: "0 \<le> Cursor m" "Cursor m < len (Assignments m)"
      by (simp_all add: state_inv_def)
    from StepSelectAssignment b nav show ?thesis
      by (auto simp: u handleKey_def key_SelectAssignment_def current_list_len_def cursor_up_def cursor_down_def
          is_up_def is_down_def)
  next
    case StepAssignmentScope
    with inv have b: "0 \<le> Cursor m" "Cursor m < 2"
      by (simp_all add: state_inv_def)
    from StepAssignmentScope b nav show ?thesis
      by (auto simp: u handleKey_def key_AssignmentScope_def current_list_len_def cursor_up_def cursor_down_def
          is_up_def is_down_def)
  next
    case StepSelectDefinitions
    with inv have b: "0 \<le> Cursor m" "Cursor m < len (AssignmentDefinitions m)"
      by (simp_all add: state_inv_def)
    from StepSelectDefinitions b nav show ?thesis
      by (auto simp: u handleKey_def key_SelectDefinitions_def current_list_len_def cursor_up_def cursor_down_def
          is_up_def is_down_def)
  next
    case StepSelectResourceGroup
    with inv have b: "0 \<le> Cursor m" "Cursor m < len (ResourceGroups m)"
      by (simp_all add: state_inv_def)
    from StepSelectResourceGroup b nav show ?thesis
      by (auto simp: u handleKey_def key_SelectResourceGroup_def current_list_len_def cursor_up_def cursor_down_def
          is_up_def is_down_def)
  next
    case StepExpirationChoice
    with inv have b: "0 \<le> Cursor m" "Cursor m < 2"
      by (simp_all add: state_inv_def)
    from StepExpirationChoice b nav show ?thesis
      by (auto simp: u handleKey_def key_ExpirationChoice_def current_list_len_def cursor_up_def cursor_down_def
          is_up_def is_down_def)
  next
    case StepTicket
    with ne show ?thesis
      by (cases "ti_Update E (TicketInput m) k")
        (simp add: u handleKey_def key_Ticket_def current_list_len_def)
  next
    case StepUsers
    with ne show ?thesis
      by (cases "ti_Update E (UserInput m) k")
        (simp add: u handleKey_def key_Users_def current_list_len_def)
  next
    case StepExpirationDate
    with ne show ?thesis
      by (cases "ti_Update E (ExpirationInput m) k")
        (simp add: u handleKey_def key_ExpirationDate_def current_list_len_def)
  next
    case StepConfirm
    with ne show ?thesis
      by (simp add: u handleKey_def key_Confirm_def current_list_len_def)
  qed (simp_all add: u handleKey_def current_list_len_def)
qed

theorem cursor_stays_in_bounds_witness:
  "\<exists>m. run sample_Env (NewModel sample_Env) to_SelectSubscription = Inr m
     \<and> current_list_len m = Some 2 \<and> Cursor m = 0
     \<and> (\<exists>m' c. Update sample_Env sample_day m (KeyMsg up_key) = Inr (m', c) \<and> Cursor m' = 0)
     \<and> (\<exists>m1 c1 m2 c2.
           Update sample_Env sample_day m (KeyMsg down_key) = Inr (m1, c1) \<and> Cursor m1 = 1
         \<and> Update sample_Env sample_day m1 (KeyMsg down_key) = Inr (m2, c2) \<and> Cursor m2 = 1)"
proof -
  have "\<exists>m. run sample_Env (NewModel sample_Env) to_SelectSubscription = Inr m
          \<and> current_list_len m = Some 2 \<and> Cursor m = 0"
    by (simp add: eval_defs current_list_len_def)
  then obtain m where run: "run sample_Env (NewModel sample_Env) to_SelectSubscription = Inr m"
    and n: "current_list_len m = Some 2" and c0: "Cursor m = 0"
    by blast
  from reachable_run [OF reachable_init run] have r: "reachable sample_Env m" .
  have k: "is_up up_key" "key_Type up_key \<noteq> KeyEnter" "is_down down_key" "\<not> is_up down_key"
    "key_Type down_key \<noteq> KeyEnter"
    by (simp_all add: is_up_def is_down_def up_key_def down_key_def)
  from cursor_stays_in_bounds [OF r, of up_key sample_day] k n c0
  obtain mu cu where up: "Update sample_Env sample_day m (KeyMsg up_key) = Inr (mu, cu)"
    and cup: "Cursor mu = 0"
    by auto
  from cursor_stays_in_bounds [OF r, of down_key sample_day] k n c0
  obtain m1 c1 where d1: "Update sample_Env sample_day m (KeyMsg down_key) = Inr (m1, c1)"
    and n1: "current_list_len m1 = Some 2" and cd1: "Cursor m1 = 1"
    by auto
  from reachable_step [OF r d1] have r1: "reachable sample_Env m1" .
  from cursor_stays_in_bounds [OF r1, of down_key sample_day] k n1 cd1
  obtain m2 c2 where d2: "Update sample_Env sample_day m1 (KeyMsg down_key) = Inr (m2, c2)"
    and cd2: "Cursor m2 = 1"
    by auto
  from run n c0 up cup d1 cd1 d2 cd2 show ?thesis by blast
qed

text \<open>
  Claim C7. Every transition that enters one of the steps \<open>StepLoadingAssignments\<close>,
  \<open>StepLoadingAssignmentDefinitions\<close>, \<open>StepLoadingResourceGroups\<close>, \<open>StepCreating\<close>
  (the step after it is one of these and differs from the step before) returns the
  operation of that step, and this is the one operation it schedules. No transition at
  all schedules more than one operation.
\<close>

theorem entering_step_schedules_its_operation:
  assumes "Update E now30 m msg = Inr (m', c)"
  shows "(loading_step (Step m') \<and> Step m' \<noteq> Step m \<longrightarrow>
            c = step_operation m' \<and> (\<exists>op. c = Some op \<and> scheduled c = [op])) \<and>
         length (scheduled c) \<le> 1"
proof -
  have "c = step_operation m' \<and> (\<exists>op. c = Some op \<and> scheduled c = [op])"
    if l: "loading_step (Step m')" and d: "Step m' \<noteq> Step m"
  proof -
    from Update_schedules [OF assms l d] obtain op where
      c: "c = step_operation m'" and op: "c = Some op" by auto
    from c op have "step_operation m' = Some op" by simp
    then have "is_operation op" by (rule step_operation_is_operation)
    then have "scheduled (Some op) = [op]" by (simp add: scheduled_def)
    with op have "scheduled c = [op]" by simp
    with c op show ?thesis by blast
  qed
  then show ?thesis using scheduled_length [of c] by blast
qed

theorem entering_step_schedules_its_operation_witness:
  "\<exists>m m' c. run sample_Env (NewModel sample_Env) to_SelectSubscription = Inr m
     \<and> Update sample_Env sample_day m (KeyMsg enter_key) = Inr (m', c)
     \<and> Step m = StepSelectSubscription
     \<and> Step m' = StepLoadingAssignments
     \<and> c = step_operation m'
     \<and> scheduled c = [fetchAssignmentsCmd sample_sub_a]"
proof -
  have "\<exists>m m'. run sample_Env (NewModel sample_Env) to_SelectSubscription = Inr m
          \<and> Update sample_Env sample_day m (KeyMsg enter_key)
              = Inr (m', Some (fetchAssignmentsCmd sample_sub_a))
          \<and> Step m = StepSelectSubscription \<and> Step m' = StepLoadingAssignments"
    by (simp add: eval_defs)
  then obtain m m' where run: "run sample_Env (NewModel sample_Env) to_SelectSubscription = Inr m"
    and u: "Update sample_Env sample_day m (KeyMsg enter_key)
              = Inr (m', Some (fetchAssignmentsCmd sample_sub_a))"
    and s: "Step m = StepSelectSubscription" and s': "Step m' = StepLoadingAssignments"
    by blast
  from entering_step_schedules_its_operation [OF u] s s'
  have "Some (fetchAssignmentsCmd sample_sub_a) = step_operation m'"
    and "scheduled (Some (fetchAssignmentsCmd sample_sub_a)) = [fetchAssignmentsCmd sample_sub_a]"
    by (auto simp: loading_step_def)
  with run u s s' show ?thesis by blast
qed

text \<open>
  Claim C8. In a reachable state in \<open>StepSelectDefinitions\<close> with a definition list
  that is not empty, two presses of the toggle key (the key whose text is a blank) both
  return; the first changes the selection map, the second restores it, and the whole
  state is again what it was before the first.
\<close>

theorem toggle_twice_restores:
  assumes r: "reachable E m"
    and st: "Step m = StepSelectDefinitions"
    and ne: "AssignmentDefinitions m \<noteq> []"
    and sp: "key_String k = '' ''"
  shows "\<exists>m1 c1 m2 c2.
           Update E n1 m (KeyMsg k) = Inr (m1, c1)
         \<and> Update E n2 m1 (KeyMsg k) = Inr (m2, c2)
         \<and> SelectedDefinitionIDs m1 \<noteq> SelectedDefinitionIDs m
         \<and> SelectedDefinitionIDs m2 = SelectedDefinitionIDs m
         \<and> m2 = m"
proof -
  from reachable_inv [OF r] st
  have cur: "0 \<le> Cursor m" "Cursor m < len (AssignmentDefinitions m)"
    and nf: "\<And>x. fmlookup (SelectedDefinitionIDs m) x \<noteq> Some False"
    by (simp_all add: state_inv_def)
  define ref where "ref = AssignmentDefinitions m ! nat (Cursor m)"
  define r where "r = ref_ReferenceID ref"
  define sel where "sel = SelectedDefinitionIDs m"
  from cur have gi: "go_index (AssignmentDefinitions m) (Cursor m) = Inr ref"
    by (simp add: go_index_def ref_def)
  from sp have nk: "\<not> is_up k" "\<not> is_down k" "key_String k \<noteq> ''ctrl+c''" "key_String k \<noteq> ''q''"
    by (simp_all add: is_up_def is_down_def)
  have upd: "Update E n m' (KeyMsg k) = key_SelectDefinitions m' k"
    if "Step m' = StepSelectDefinitions" for n and m' :: "'a Model"
    using that nk by (simp add: Update_def handleKey_def)
  show ?thesis
  proof (cases "fmlookup sel r")
    case None
    then have g: "\<not> map_get (SelectedDefinitionIDs m) r" by (simp add: map_get_def sel_def)
    define m1 where "m1 = m\<lparr>SelectedDefinitionIDs := fmupd r True sel\<rparr>"
    have u1: "Update E n1 m (KeyMsg k) = Inr (m1, None)"
      using g gi ne sp nk by (simp add: upd st key_SelectDefinitions_def m1_def r_def sel_def)
    have restored: "fmdrop r (fmupd r True sel) = sel"
      using None by (intro fmap_ext) auto
    have u2: "Update E n2 m1 (KeyMsg k) = Inr (m, None)"
      using gi ne sp nk restored
      by (simp add: upd st key_SelectDefinitions_def m1_def r_def [symmetric] map_get_def sel_def)
    have "fmupd r True sel \<noteq> sel"
    proof
      assume "fmupd r True sel = sel"
      then have "fmlookup (fmupd r True sel) r = fmlookup sel r" by (rule arg_cong)
      with None show False by simp
    qed
    then have "SelectedDefinitionIDs m1 \<noteq> SelectedDefinitionIDs m"
      by (simp add: m1_def sel_def)
    with u1 u2 show ?thesis by blast
  next
    case (Some b)
    with nf [of r] have b: "fmlookup sel r = Some True" by (cases b) (auto simp: sel_def)
    then have g: "map_get (SelectedDefinitionIDs m) r" by (simp add: map_get_def sel_def)
    define m1 where "m1 = m\<lparr>SelectedDefinitionIDs := fmdrop r sel\<rparr>"
    have u1: "Update E n1 m (KeyMsg k) = Inr (m1, None)"
      using g gi ne sp nk by (simp add: upd st key_SelectDefinitions_def m1_def r_def sel_def)
    have restored: "fmupd r True (fmdrop r sel) = sel"
      using b by (intro fmap_ext) auto
    have u2: "Update E n2 m1 (KeyMsg k) = Inr (m, None)"
      using gi ne sp nk restored
      by (simp add: upd st key_SelectDefinitions_def m1_def r_def [symmetric] map_get_def sel_def)
    have "fmdrop r sel \<noteq> sel"
    proof
      assume "fmdrop r sel = sel"
      then have "fmlookup (fmdrop r sel) r = fmlookup sel r" by (rule arg_cong)
      with b show False by simp
    qed
    then have "SelectedDefinitionIDs m1 \<noteq> SelectedDefinitionIDs m"
      by (simp add: m1_def sel_def)
    with u1 u2 show ?thesis by blast
  qed
qed

theorem toggle_twice_restores_witness:
  "\<exists>m. run sample_Env (NewModel sample_Env) to_SelectDefinitions = Inr m
     \<and> Step m = StepSelectDefinitions
     \<and> (\<exists>m1 c1 m2 c2.
           Update sample_Env sample_day m (KeyMsg space_key) = Inr (m1, c1)
         \<and> Update sample_Env sample_day m1 (KeyMsg space_key) = Inr (m2, c2)
         \<and> SelectedDefinitionIDs m1 \<noteq> SelectedDefinitionIDs m
         \<and> SelectedDefinitionIDs m2 = SelectedDefinitionIDs m)"
proof -
  have "\<exists>m. run sample_Env (NewModel sample_Env) to_SelectDefinitions = Inr m
          \<and> Step m = StepSelectDefinitions \<and> AssignmentDefinitions m \<noteq> []"
    by (simp add: eval_defs)
  then obtain m where run: "run sample_Env (NewModel sample_Env) to_SelectDefinitions = Inr m"
    and st: "Step m = StepSelectDefinitions" and ne: "AssignmentDefinitions m \<noteq> []"
    by blast
  from reachable_run [OF reachable_init run] have "reachable sample_Env m" .
  from toggle_twice_restores [OF this st ne, of space_key sample_day sample_day] run st
  show ?thesis by (simp add: space_key_def) blast
qed

text \<open>
  Claim C9, as stated, fails: the subscription with the identifier
  \<open>subscriptions/a\<close> (no leading slash) has itself as short id, while the last path
  segment of the identifier is \<open>a\<close>.
\<close>

theorem ShortID_not_last_segment:
  "ShortID \<lparr>sub_ID = ''subscriptions/a'', sub_Name = ''Prod''\<rparr> = ''subscriptions/a'' \<and>
   last_path_segment (sub_ID \<lparr>sub_ID = ''subscriptions/a'', sub_Name = ''Prod''\<rparr>) = ''a''"
  by (simp add: ShortID_def last_path_segment_def)

text \<open>
  Claim C9, amended. For an identifier that starts with \<open>/subscriptions/\<close>, or that
  contains no \<open>/\<close>, the short id is the last path segment of the identifier; for every
  identifier that does not start with \<open>/subscriptions/\<close> the short id is the identifier
  itself. The short id and the scope depend on the identifier only.
\<close>

theorem ShortID_Scope_of_identifier:
  "(prefix ''/subscriptions/'' (sub_ID s) \<longrightarrow> ShortID s = last_path_segment (sub_ID s)) \<and>
   (CHR ''/'' \<notin> set (sub_ID s) \<longrightarrow> ShortID s = last_path_segment (sub_ID s)) \<and>
   (\<not> prefix ''/subscriptions/'' (sub_ID s) \<longrightarrow> ShortID s = sub_ID s) \<and>
   (sub_ID s = sub_ID t \<longrightarrow> ShortID s = ShortID t \<and> Scope s = Scope t)"
proof -
  have a: "ShortID s = last_path_segment (sub_ID s)" if "prefix ''/subscriptions/'' (sub_ID s)"
    using that by (simp add: ShortID_def last_path_segment_def last_strings_Split)
  have b: "ShortID s = last_path_segment (sub_ID s)" if h: "CHR ''/'' \<notin> set (sub_ID s)"
  proof -
    from h have tw: "takeWhile (\<lambda>c. c \<noteq> CHR ''/'') (rev (sub_ID s)) = rev (sub_ID s)"
      by (auto simp: takeWhile_eq_all_conv)
    show ?thesis
      unfolding ShortID_def last_path_segment_def last_strings_Split tw by simp
  qed
  have c: "ShortID s = sub_ID s" if "\<not> prefix ''/subscriptions/'' (sub_ID s)"
    using that by (simp add: ShortID_def)
  have d: "ShortID s = ShortID t \<and> Scope s = Scope t" if "sub_ID s = sub_ID t"
    unfolding ShortID_def Scope_def that by simp
  from a b c d show ?thesis by blast
qed

theorem ShortID_Scope_of_identifier_witness:
  "ShortID \<lparr>sub_ID = ''/subscriptions/a'', sub_Name = ''Prod''\<rparr> = ''a'' \<and>
   ShortID \<lparr>sub_ID = ''0f1e'', sub_Name = ''Prod''\<rparr> = ''0f1e'' \<and>
   ShortID \<lparr>sub_ID = ''subscriptions/a'', sub_Name = ''Prod''\<rparr> = ''subscriptions/a'' \<and>
   Scope \<lparr>sub_ID = ''/subscriptions/a'', sub_Name = ''Prod''\<rparr>
     = Scope \<lparr>sub_ID = ''/subscriptions/a'', sub_Name = ''Test''\<rparr>"
  using
    ShortID_Scope_of_identifier [of "\<lparr>sub_ID = ''/subscriptions/a'', sub_Name = ''Prod''\<rparr>"
      "\<lparr>sub_ID = ''/subscriptions/a'', sub_Name = ''Test''\<rparr>"]
    ShortID_Scope_of_identifier [of "\<lparr>sub_ID = ''0f1e'', sub_Name = ''Prod''\<rparr>"
      "\<lparr>sub_ID = ''0f1e'', sub_Name = ''Prod''\<rparr>"]
    ShortID_Scope_of_identifier [of "\<lparr>sub_ID = ''subscriptions/a'', sub_Name = ''Prod''\<rparr>"
      "\<lparr>sub_ID = ''subscriptions/a'', sub_Name = ''Prod''\<rparr>"]
  by (simp add: last_path_segment_def)

text \<open>
  Claim C10. \<open>CurrentSubscription\<close> and \<open>CurrentAssignment\<close> return for every model:
  the selected element when the selection is an index of the list, the zero value when
  the list is empty, and the first element when the list is not empty and the selection
  is out of range; they never panic.
\<close>

theorem current_accessors_total:
  "(0 \<le> SelectedSubscription m \<and> SelectedSubscription m < len (Subscriptions m) \<longrightarrow>
      CurrentSubscription m = Inr (Subscriptions m ! nat (SelectedSubscription m))) \<and>
   (Subscriptions m = [] \<longrightarrow> CurrentSubscription m = Inr zero_Subscription) \<and>
   (Subscriptions m \<noteq> [] \<and>
    \<not> (0 \<le> SelectedSubscription m \<and> SelectedSubscription m < len (Subscriptions m)) \<longrightarrow>
      CurrentSubscription m = Inr (hd (Subscriptions m))) \<and>
   (0 \<le> SelectedAssignment m \<and> SelectedAssignment m < len (Assignments m) \<longrightarrow>
      CurrentAssignment m = Inr (Assignments m ! nat (SelectedAssignment m))) \<and>
   (Assignments m = [] \<longrightarrow> CurrentAssignment m = Inr zero_PolicyAssignment) \<and>
   (Assignments m \<noteq> [] \<and>
    \<not> (0 \<le> SelectedAssignment m \<and> SelectedAssignment m < len (Assignments m)) \<longrightarrow>
      CurrentAssignment m = Inr (hd (Assignments m))) \<and>
   (\<forall>p. CurrentSubscription m \<noteq> Inl p \<and> CurrentAssignment m \<noteq> Inl p)"
  by (auto simp: CurrentSubscription_def CurrentAssignment_def go_index_def hd_conv_nth)

theorem current_accessors_total_witness:
  "CurrentSubscription
     ((NewModel sample_Env)
        \<lparr>Subscriptions := [\<lparr>sub_ID = ''/subscriptions/a'', sub_Name = ''Prod''\<rparr>,
                           \<lparr>sub_ID = ''/subscriptions/b'', sub_Name = ''Test''\<rparr>],
         SelectedSubscription := 1\<rparr>)
     = Inr \<lparr>sub_ID = ''/subscriptions/b'', sub_Name = ''Test''\<rparr> \<and>
   CurrentSubscription (NewModel sample_Env) = Inr zero_Subscription \<and>
   CurrentSubscription
     ((NewModel sample_Env)
        \<lparr>Subscriptions := [\<lparr>sub_ID = ''/subscriptions/a'', sub_Name = ''Prod''\<rparr>,
                           \<lparr>sub_ID = ''/subscriptions/b'', sub_Name = ''Test''\<rparr>]\<rparr>)
     = Inr \<lparr>sub_ID = ''/subscriptions/a'', sub_Name = ''Prod''\<rparr> \<and>
   CurrentAssignment
     ((NewModel sample_Env)
        \<lparr>Assignments := [zero_PolicyAssignment\<lparr>pa_Name := ''first''\<rparr>,
                         zero_PolicyAssignment\<lparr>pa_Name := ''second''\<rparr>],
         SelectedAssignment := 5\<rparr>)
     = Inr (zero_PolicyAssignment\<lparr>pa_Name := ''first''\<rparr>) \<and>
   CurrentAssignment (NewModel sample_Env) = Inr zero_PolicyAssignment"
  using
    current_accessors_total [of
      "(NewModel sample_Env)
         \<lparr>Subscriptions := [\<lparr>sub_ID = ''/subscriptions/a'', sub_Name = ''Prod''\<rparr>,
                            \<lparr>sub_ID = ''/subscriptions/b'', sub_Name = ''Test''\<rparr>],
          SelectedSubscription := 1\<rparr>"]
    current_accessors_total [of "NewModel sample_Env"]
    current_accessors_total [of
      "(NewModel sample_Env)
         \<lparr>Subscriptions := [\<lparr>sub_ID = ''/subscriptions/a'', sub_Name = ''Prod''\<rparr>,
                            \<lparr>sub_ID = ''/subscriptions/b'', sub_Name = ''Test''\<rparr>]\<rparr>"]
    current_accessors_total [of
      "(NewModel sample_Env)
         \<lparr>Assignments := [zero_PolicyAssignment\<lparr>pa_Name := ''first''\<rparr>,
                          zero_PolicyAssignment\<lparr>pa_Name := ''second''\<rparr>],
          SelectedAssignment := 5\<rparr>"]
  by (simp add: NewModel_def)

end
